theory Spec2Isabelle
  imports Main "HOL-Library.AList"
begin

section \<open>Python values and exceptions\<close>

text \<open>
  The service in \<^verbatim>\<open>src/services/chatbot_service.py\<close> handles dynamically typed
  values: chat documents, retrieval results, formatted context, payloads and the
  dictionaries it returns.  They are modelled by one datatype of Python values.
  A dict is an association list in insertion order (keys are strings, assumed
  distinct); numbers are integers.  \<open>PObject\<close> is an instance of the named class
  that is no container: it is truthy and has none of the methods and operators
  used below.
\<close>

datatype pyval =
    PNone
  | PBool bool
  | PInt int
  | PStr string
  | PList "pyval list"
  | PTuple "pyval list"
  | PDict "(string \<times> pyval) list"
  | PObject string

text \<open>Exceptions derived from Python's \<^verbatim>\<open>Exception\<close>, with their message.\<close>

datatype exn =
    ValueError string
  | AttributeError string
  | TypeError string
  | KeyError string
  | IndexError string
  | Exception string

text \<open>Truth value of an object, as tested by \<^verbatim>\<open>if x\<close>, \<^verbatim>\<open>not x\<close>, \<^verbatim>\<open>x and y\<close>, \<^verbatim>\<open>x or y\<close>.\<close>

fun truthy :: "pyval \<Rightarrow> bool" where
  "truthy PNone = False"
| "truthy (PBool b) = b"
| "truthy (PInt i) = (i \<noteq> 0)"
| "truthy (PStr s) = (s \<noteq> [])"
| "truthy (PList xs) = (xs \<noteq> [])"
| "truthy (PTuple xs) = (xs \<noteq> [])"
| "truthy (PDict d) = (d \<noteq> [])"
| "truthy (PObject c) = True"

text \<open>\<^verbatim>\<open>x.get(key, default)\<close>: only dicts have the method.\<close>

fun py_get :: "pyval \<Rightarrow> string \<Rightarrow> pyval \<Rightarrow> exn + pyval" where
  "py_get (PDict d) k dflt = Inr (case map_of d k of None \<Rightarrow> dflt | Some v \<Rightarrow> v)"
| "py_get _ k dflt = Inl (AttributeError ''get'')"

text \<open>\<^verbatim>\<open>x[key]\<close> with a string key.\<close>

fun py_getitem :: "pyval \<Rightarrow> string \<Rightarrow> exn + pyval" where
  "py_getitem (PDict d) k = (case map_of d k of None \<Rightarrow> Inl (KeyError k) | Some v \<Rightarrow> Inr v)"
| "py_getitem _ k = Inl (TypeError ''subscript'')"

text \<open>\<^verbatim>\<open>x[0]\<close>.  The keys of a dict are strings here, so the key 0 is never present.\<close>

fun py_first :: "pyval \<Rightarrow> exn + pyval" where
  "py_first (PList []) = Inl (IndexError ''list index out of range'')"
| "py_first (PList (x # xs)) = Inr x"
| "py_first (PTuple []) = Inl (IndexError ''tuple index out of range'')"
| "py_first (PTuple (x # xs)) = Inr x"
| "py_first (PStr []) = Inl (IndexError ''string index out of range'')"
| "py_first (PStr (c # cs)) = Inr (PStr [c])"
| "py_first (PDict d) = Inl (KeyError ''0'')"
| "py_first _ = Inl (TypeError ''subscript'')"

text \<open>\<^verbatim>\<open>len(x)\<close>.\<close>

fun py_len :: "pyval \<Rightarrow> exn + nat" where
  "py_len (PStr s) = Inr (length s)"
| "py_len (PList xs) = Inr (length xs)"
| "py_len (PTuple xs) = Inr (length xs)"
| "py_len (PDict d) = Inr (length d)"
| "py_len _ = Inl (TypeError ''len'')"

text \<open>The items an iterable yields; \<^verbatim>\<open>a, b = x\<close> unpacks exactly two of them.\<close>

fun py_iter :: "pyval \<Rightarrow> exn + pyval list" where
  "py_iter (PList xs) = Inr xs"
| "py_iter (PTuple xs) = Inr xs"
| "py_iter (PStr s) = Inr (map (\<lambda>c. PStr [c]) s)"
| "py_iter (PDict d) = Inr (map (\<lambda>kv. PStr (fst kv)) d)"
| "py_iter _ = Inl (TypeError ''not iterable'')"

definition py_unpack2 :: "pyval \<Rightarrow> exn + pyval \<times> pyval" where
  "py_unpack2 x =
     (case py_iter x of
        Inl e \<Rightarrow> Inl e
      | Inr [a, b] \<Rightarrow> Inr (a, b)
      | Inr _ \<Rightarrow> Inl (ValueError ''unpack''))"

section \<open>Collaborators, service object and run state\<close>

text \<open>
  The collaborators (\<^verbatim>\<open>ChromaUtils\<close>, \<^verbatim>\<open>ChatUtils\<close>, \<^verbatim>\<open>LLMContextFormatter\<close>,
  \<^verbatim>\<open>PerplexityLLM\<close>) are imported by the service, not defined by it.  Each method
  the service calls is a constructor of \<open>call\<close> carrying the arguments passed.
\<close>

datatype call =
    GetChat string
  | AddPromptToChat string string
  | AddAssistantResponseToChat string pyval pyval
  | QueryChatDocs string string
  | GetCollection
  | FormatRagContext pyval
  | FormatChatHistory pyval int
  | TruncateContextIfNeeded pyval pyval int
  | PrepareLLMPayload pyval pyval string
  | ExtractCitationsFromContext pyval pyval
  | GenerateWithContext pyval pyval pyval
  | Generate pyval

text \<open>
  The service object.  \<open>perform\<close> is the behaviour of the collaborators: a call in
  a world \<open>'w\<close> (databases, remote services) either raises or returns a value, and
  leaves a new world.  \<open>utcnow_isoformat\<close> is \<^verbatim>\<open>datetime.utcnow().isoformat()\<close>.
  \<open>llm\<close> is the attribute \<^verbatim>\<open>self.llm\<close>, the value \<^verbatim>\<open>health_check\<close> compares with \<^verbatim>\<open>None\<close>.
  The three limits are the attributes set under \<^verbatim>\<open># Configuration\<close>.
\<close>

record 'w service =
  perform :: "call \<Rightarrow> 'w \<Rightarrow> (exn + pyval) \<times> 'w"
  utcnow_isoformat :: "'w \<Rightarrow> string"
  llm :: pyval
  max_rag_results :: int
  max_chat_history :: int
  max_tokens :: int

text \<open>
  \<^verbatim>\<open>ChatbotService.__init__\<close>, given the collaborators it constructs; \<^verbatim>\<open>self.llm\<close> is
  the \<^verbatim>\<open>PerplexityLLM\<close> instance.
\<close>

definition init :: "(call \<Rightarrow> 'w \<Rightarrow> (exn + pyval) \<times> 'w) \<Rightarrow> ('w \<Rightarrow> string) \<Rightarrow> 'w service" where
  "init collaborators clock =
     \<lparr>perform = collaborators, utcnow_isoformat = clock, llm = PObject ''PerplexityLLM'',
      max_rag_results = 5, max_chat_history = 10, max_tokens = 8000\<rparr>"

text \<open>
  A run threads the world and records every collaborator call with its outcome
  (\<open>Inl\<close> the exception raised, \<open>Inr\<close> the value returned), in order.
\<close>

record 'w state =
  world :: 'w
  trace :: "(call \<times> (exn + pyval)) list"

definition start :: "'w \<Rightarrow> 'w state" where
  "start w = \<lparr>world = w, trace = []\<rparr>"

type_synonym ('w, 'a) prog = "'w state \<Rightarrow> (exn + 'a) \<times> 'w state"

definition return_x :: "'a \<Rightarrow> ('w, 'a) prog" where
  "return_x v = (\<lambda>s. (Inr v, s))"

definition raise_x :: "exn \<Rightarrow> ('w, 'a) prog" where
  "raise_x e = (\<lambda>s. (Inl e, s))"

text \<open>The result of a Python operation that may raise.\<close>

definition lift_x :: "exn + 'a \<Rightarrow> ('w, 'a) prog" where
  "lift_x r = (\<lambda>s. (r, s))"

text \<open>Sequencing: an exception skips the rest.\<close>

definition bind_x :: "('w, 'a) prog \<Rightarrow> ('a \<Rightarrow> ('w, 'b) prog) \<Rightarrow> ('w, 'b) prog" where
  "bind_x m f = (\<lambda>s. case m s of (Inl e, s') \<Rightarrow> (Inl e, s') | (Inr v, s') \<Rightarrow> f v s')"

text \<open>\<^verbatim>\<open>try: m except Exception as e: h\<close>; what \<open>m\<close> did before raising stays done.\<close>

definition try_except :: "('w, 'a) prog \<Rightarrow> (exn \<Rightarrow> ('w, 'a) prog) \<Rightarrow> ('w, 'a) prog" where
  "try_except m h = (\<lambda>s. case m s of (Inl e, s') \<Rightarrow> h e s' | (Inr v, s') \<Rightarrow> (Inr v, s'))"

text \<open>A collaborator call.\<close>

definition invoke :: "'w service \<Rightarrow> call \<Rightarrow> ('w, pyval) prog" where
  "invoke svc c = (\<lambda>s. case perform svc c (world s) of
      (r, w') \<Rightarrow> (r, \<lparr>world = w', trace = trace s @ [(c, r)]\<rparr>))"

section \<open>The service methods\<close>

definition fallback_response :: string where
  "fallback_response =
     ''I apologize, but I'm having trouble accessing my language model right now. Please try again later.''"

definition error_response :: string where
  "error_response =
     ''I apologize, but I encountered an error while processing your request. Please try again.''"

text \<open>
  \<^verbatim>\<open>_retrieve_relevant_context\<close>.  The second log line evaluates
  \<^verbatim>\<open>len(results.get('documents', [[]])[0])\<close> inside the \<^verbatim>\<open>try\<close>.
\<close>

definition retrieve_relevant_context :: "'w service \<Rightarrow> string \<Rightarrow> string \<Rightarrow> ('w, pyval) prog" where
  "retrieve_relevant_context svc chat_id query =
     try_except
       (bind_x (invoke svc (QueryChatDocs chat_id query)) (\<lambda>results.
        bind_x (lift_x (py_get results ''documents'' (PList [PList []]))) (\<lambda>documents.
        bind_x (lift_x (py_first documents)) (\<lambda>first_batch.
        bind_x (lift_x (py_len first_batch)) (\<lambda>_.
        return_x results)))))
       (\<lambda>e. return_x (PDict []))"

text \<open>The body of the \<^verbatim>\<open>try\<close> in \<^verbatim>\<open>_generate_llm_response\<close>.\<close>

definition llm_generation :: "'w service \<Rightarrow> pyval \<Rightarrow> ('w, pyval) prog" where
  "llm_generation svc payload =
     bind_x (lift_x (py_get payload ''context'' PNone)) (\<lambda>context.
     bind_x (if truthy context then return_x True
             else bind_x (lift_x (py_get payload ''history'' PNone)) (\<lambda>history.
                  return_x (truthy history))) (\<lambda>context_available.
     if context_available then
       bind_x (lift_x (py_getitem payload ''prompt'')) (\<lambda>prompt.
       bind_x (lift_x (py_get payload ''context'' (PList []))) (\<lambda>context.
       bind_x (lift_x (py_get payload ''history'' (PList []))) (\<lambda>history.
       invoke svc (GenerateWithContext prompt context history))))
     else
       bind_x (lift_x (py_getitem payload ''prompt'')) (\<lambda>prompt.
       invoke svc (Generate prompt))))"

definition generate_llm_response :: "'w service \<Rightarrow> pyval \<Rightarrow> ('w, pyval) prog" where
  "generate_llm_response svc payload =
     try_except (llm_generation svc payload) (\<lambda>e. return_x (PStr fallback_response))"

text \<open>\<^verbatim>\<open>user_id and chat.get('userId') != user_id\<close>, for \<^verbatim>\<open>user_id: str = None\<close>.\<close>

definition owner_mismatch :: "pyval \<Rightarrow> string option \<Rightarrow> exn + bool" where
  "owner_mismatch chat user_id =
     (case user_id of
        None \<Rightarrow> Inr False
      | Some u \<Rightarrow>
          if u = [] then Inr False
          else (case py_get chat ''userId'' PNone of
                  Inl e \<Rightarrow> Inl e
                | Inr owner \<Rightarrow> Inr (owner \<noteq> PStr u)))"

text \<open>Step 1 of \<^verbatim>\<open>process_chat_prompt\<close>: validate chat and user.\<close>

definition validate_chat_and_user :: "'w service \<Rightarrow> string \<Rightarrow> string option \<Rightarrow> ('w, pyval) prog" where
  "validate_chat_and_user svc chat_id user_id =
     bind_x (invoke svc (GetChat chat_id)) (\<lambda>chat.
     if \<not> truthy chat then raise_x (ValueError (''Chat not found: '' @ chat_id))
     else
       bind_x (lift_x (owner_mismatch chat user_id)) (\<lambda>mismatch.
       if mismatch then raise_x (ValueError ''User ID does not match chat owner'')
       else return_x chat))"

text \<open>Steps 4 to 9, given the formatted retrieval context.\<close>

definition respond_with_context :: "'w service \<Rightarrow> string \<Rightarrow> string \<Rightarrow> pyval \<Rightarrow> ('w, pyval) prog" where
  "respond_with_context svc chat_id user_prompt formatted_rag_context =
     bind_x (invoke svc (GetChat chat_id)) (\<lambda>chat_with_history.
     bind_x (lift_x (py_get chat_with_history ''conversation_history'' (PList []))) (\<lambda>conversation_history.
     bind_x (invoke svc (FormatChatHistory conversation_history (max_chat_history svc))) (\<lambda>formatted_chat_history.
     bind_x (invoke svc (TruncateContextIfNeeded formatted_rag_context formatted_chat_history (max_tokens svc))) (\<lambda>optimized.
     bind_x (lift_x (py_unpack2 optimized)) (\<lambda>(optimized_context, optimized_history).
     bind_x (invoke svc (PrepareLLMPayload optimized_context optimized_history user_prompt)) (\<lambda>llm_payload.
     bind_x (generate_llm_response svc llm_payload) (\<lambda>assistant_response.
     bind_x (invoke svc (ExtractCitationsFromContext optimized_context assistant_response)) (\<lambda>citations.
     bind_x (invoke svc (AddAssistantResponseToChat chat_id assistant_response citations)) (\<lambda>_.
     bind_x (lift_x (py_len optimized_context)) (\<lambda>context_used.
     bind_x (lift_x (py_len optimized_history)) (\<lambda>history_used.
     (\<lambda>s. return_x (PDict
        [(''chatId'', PStr chat_id),
         (''response'', assistant_response),
         (''citations'', citations),
         (''contextUsed'', PInt (int context_used)),
         (''historyUsed'', PInt (int history_used)),
         (''timestamp'', PStr (utcnow_isoformat svc (world s)))]) s))))))))))))"

text \<open>Steps 2 and 3, then the rest.\<close>

definition answer_prompt :: "'w service \<Rightarrow> string \<Rightarrow> string \<Rightarrow> ('w, pyval) prog" where
  "answer_prompt svc chat_id user_prompt =
     bind_x (invoke svc (AddPromptToChat chat_id user_prompt)) (\<lambda>_.
     bind_x (retrieve_relevant_context svc chat_id user_prompt) (\<lambda>rag_results.
     bind_x (invoke svc (FormatRagContext rag_results)) (\<lambda>formatted_rag_context.
     respond_with_context svc chat_id user_prompt formatted_rag_context)))"

text \<open>The body of the outer \<^verbatim>\<open>try\<close>.\<close>

definition process_steps :: "'w service \<Rightarrow> string \<Rightarrow> string \<Rightarrow> string option \<Rightarrow> ('w, pyval) prog" where
  "process_steps svc chat_id user_prompt user_id =
     bind_x (validate_chat_and_user svc chat_id user_id) (\<lambda>chat.
     answer_prompt svc chat_id user_prompt)"

text \<open>The \<^verbatim>\<open>except Exception as e\<close> handler: try to store the apology, then re-raise.\<close>

definition report_error :: "'w service \<Rightarrow> string \<Rightarrow> exn \<Rightarrow> ('w, pyval) prog" where
  "report_error svc chat_id e =
     bind_x (try_except
               (invoke svc (AddAssistantResponseToChat chat_id (PStr error_response) (PList [])))
               (\<lambda>_. return_x PNone)) (\<lambda>_.
     raise_x e)"

definition process_chat_prompt :: "'w service \<Rightarrow> string \<Rightarrow> string \<Rightarrow> string option \<Rightarrow> ('w, pyval) prog" where
  "process_chat_prompt svc chat_id user_prompt user_id =
     try_except (process_steps svc chat_id user_prompt user_id) (report_error svc chat_id)"

text \<open>
  \<^verbatim>\<open>health_check\<close>.  Each probe is a \<^verbatim>\<open>try\<close> whose handler is \<^verbatim>\<open>pass\<close>.  The third
  probe makes no call: it stores \<^verbatim>\<open>self.llm is not None\<close>.
\<close>

definition health_check :: "'w service \<Rightarrow> ('w, pyval) prog" where
  "health_check svc =
     (\<lambda>s0.
       (bind_x (return_x
          [(''chatbot_service'', PBool True),
           (''chroma_db'', PBool False),
           (''mongodb'', PBool False),
           (''perplexity_llm'', PBool False),
           (''timestamp'', PStr (utcnow_isoformat svc (world s0)))]) (\<lambda>health.
        bind_x (try_except
                  (bind_x (invoke svc GetCollection) (\<lambda>collection.
                   return_x (AList.update ''chroma_db'' (PBool (collection \<noteq> PNone)) health)))
                  (\<lambda>_. return_x health)) (\<lambda>health.
        bind_x (try_except
                  (bind_x (invoke svc (GetChat ''health_check_test'')) (\<lambda>test_chat.
                   return_x (AList.update ''mongodb'' (PBool True) health)))
                  (\<lambda>_. return_x health)) (\<lambda>health.
        bind_x (try_except
                  (return_x (AList.update ''perplexity_llm'' (PBool (llm svc \<noteq> PNone)) health))
                  (\<lambda>_. return_x health)) (\<lambda>health.
        return_x (PDict health)))))) s0)"

section \<open>Kinds of collaborator calls\<close>

fun is_append :: "call \<Rightarrow> bool" where
  "is_append (AddPromptToChat c p) = True"
| "is_append (AddAssistantResponseToChat c r cits) = True"
| "is_append _ = False"

fun is_generation :: "call \<Rightarrow> bool" where
  "is_generation (GenerateWithContext p c h) = True"
| "is_generation (Generate p) = True"
| "is_generation _ = False"

fun is_chroma :: "call \<Rightarrow> bool" where
  "is_chroma (QueryChatDocs c q) = True"
| "is_chroma GetCollection = True"
| "is_chroma _ = False"

section \<open>The context formatter, from the specification\<close>

text \<open>
  Modelled from the spec: \<^verbatim>\<open>utils/llm_context_utils.py\<close> (\<^verbatim>\<open>LLMContextFormatter\<close>) is
  not part of the sources.  The specification describes formatted context and
  history as sequences of text blocks, each with a token-count estimate, and the
  truncation as: when context and history together exceed the budget, cut the
  context first, then the history, keeping the most relevant context blocks
  (the leading ones) and the most recent history turns (the trailing ones).
  The estimate of one block is a parameter \<open>est\<close>.
\<close>

definition tokens :: "(pyval \<Rightarrow> nat) \<Rightarrow> pyval list \<Rightarrow> nat" where
  "tokens est blocks = sum_list (map est blocks)"

text \<open>Modelled from the spec: the longest leading part of the blocks that fits into \<open>room\<close>.\<close>

fun fit_prefix :: "(pyval \<Rightarrow> nat) \<Rightarrow> nat \<Rightarrow> pyval list \<Rightarrow> pyval list" where
  "fit_prefix est room [] = []"
| "fit_prefix est room (b # bs) =
     (if est b \<le> room then b # fit_prefix est (room - est b) bs else [])"

text \<open>Modelled from the spec: \<^verbatim>\<open>truncate(context, history, tokenBudget)\<close> on block lists.\<close>

definition truncate_blocks ::
  "(pyval \<Rightarrow> nat) \<Rightarrow> nat \<Rightarrow> pyval list \<Rightarrow> pyval list \<Rightarrow> pyval list \<times> pyval list" where
  "truncate_blocks est budget context history =
     (if tokens est context + tokens est history \<le> budget then (context, history)
      else if tokens est history \<le> budget
        then (fit_prefix est (budget - tokens est history) context, history)
      else ([], rev (fit_prefix est budget (rev history))))"

text \<open>
  Modelled from the spec: \<^verbatim>\<open>truncate_context_if_needed\<close> as the service calls it, on
  Python values; it returns the pair the service unpacks.
\<close>

fun truncate_context_if_needed :: "(pyval \<Rightarrow> nat) \<Rightarrow> pyval \<Rightarrow> pyval \<Rightarrow> int \<Rightarrow> exn + pyval" where
  "truncate_context_if_needed est (PList context) (PList history) budget =
     (case truncate_blocks est (nat budget) context history of
        (c, h) \<Rightarrow> Inr (PTuple [PList c, PList h]))"
| "truncate_context_if_needed est _ _ budget = Inl (TypeError ''blocks'')"

text \<open>
  Modelled from the spec: a service whose formatter truncates as specified, with
  block estimate \<open>est\<close>.
\<close>

definition truncates_as_specified :: "(pyval \<Rightarrow> nat) \<Rightarrow> 'w service \<Rightarrow> bool" where
  "truncates_as_specified est svc \<longleftrightarrow>
     (\<forall>c h n w. fst (perform svc (TruncateContextIfNeeded c h n) w) = truncate_context_if_needed est c h n)"

text \<open>
  Modelled from the spec: what the specification's ``retrieval failures are
  treated as empty context'' asks of the absent formatter.  Formatting the empty
  retrieval result gives a context of length 0, and truncating a context of
  length 0 gives one of length 0.
\<close>

definition keeps_empty_context :: "'w service \<Rightarrow> bool" where
  "keeps_empty_context svc \<longleftrightarrow>
     (\<forall>w v w'. perform svc (FormatRagContext (PDict [])) w = (Inr v, w') \<longrightarrow> py_len v = Inr 0) \<and>
     (\<forall>c h n w v w' c' h'.
        perform svc (TruncateContextIfNeeded c h n) w = (Inr v, w') \<longrightarrow>
        py_len c = Inr 0 \<longrightarrow> py_unpack2 v = Inr (c', h') \<longrightarrow> py_len c' = Inr 0)"

text \<open>Modelled from the spec: a block tagged with its token-count estimate, and reading the tag.\<close>

definition doc :: "string \<Rightarrow> int \<Rightarrow> pyval" where
  "doc t n = PDict [(''text'', PStr t), (''tokens'', PInt n)]"

definition block_tokens :: "pyval \<Rightarrow> nat" where
  "block_tokens b = (case py_getitem b ''tokens'' of Inr (PInt n) \<Rightarrow> nat n | _ \<Rightarrow> 0)"

text \<open>Modelled from the spec: \<^verbatim>\<open>formatContext(RetrievalResult)\<close>, the retrieved documents as blocks.\<close>

fun format_rag_context :: "pyval \<Rightarrow> pyval" where
  "format_rag_context (PDict d) =
     (case map_of d ''documents'' of Some (PList (PList docs # _)) \<Rightarrow> PList docs | _ \<Rightarrow> PList [])"
| "format_rag_context _ = PList []"

text \<open>Modelled from the spec: \<^verbatim>\<open>formatHistory(messages, maxTurns)\<close>, the last \<open>maxTurns\<close> turns.\<close>

fun format_chat_history :: "pyval \<Rightarrow> int \<Rightarrow> pyval" where
  "format_chat_history (PList turns) n = PList (drop (length turns - nat n) turns)"
| "format_chat_history _ n = PList []"

section \<open>An in-memory set of collaborators\<close>

text \<open>
  Modelled from the spec: \<^verbatim>\<open>utils/chat_utils.py\<close>, \<^verbatim>\<open>utils/chroma_utils.py\<close> and
  \<^verbatim>\<open>llm/perplexity_llm.py\<close> are not part of the sources.  For concrete runs the
  chat store is an association list from chat id to chat document; appending to
  a chat that does not exist changes nothing.  The retriever returns the
  documents \<open>docs\<close>; the language model answers \<^verbatim>\<open>answer\<close>; the calls selected by
  \<open>down\<close> raise.
\<close>

type_synonym store = "(string \<times> pyval) list"

text \<open>Modelled from the spec: appending a message to the history of an existing chat.\<close>

definition append_message :: "string \<Rightarrow> pyval \<Rightarrow> store \<Rightarrow> store" where
  "append_message chat_id msg st =
     (case map_of st chat_id of
        Some (PDict chat) \<Rightarrow>
          (case map_of chat ''conversation_history'' of
             Some (PList turns) \<Rightarrow>
               AList.update chat_id
                 (PDict (AList.update ''conversation_history'' (PList (turns @ [msg])) chat)) st
           | _ \<Rightarrow>
               AList.update chat_id
                 (PDict (AList.update ''conversation_history'' (PList [msg]) chat)) st)
      | _ \<Rightarrow> st)"

text \<open>Modelled from the spec: the collaborators when all of them are available.\<close>

fun collaborators_up :: "pyval list \<Rightarrow> call \<Rightarrow> store \<Rightarrow> (exn + pyval) \<times> store" where
  "collaborators_up docs (GetChat c) st =
     (Inr (case map_of st c of None \<Rightarrow> PNone | Some chat \<Rightarrow> chat), st)"
| "collaborators_up docs (AddPromptToChat c p) st =
     (Inr PNone, append_message c (PDict [(''role'', PStr ''user''), (''content'', PStr p)]) st)"
| "collaborators_up docs (AddAssistantResponseToChat c r cits) st =
     (Inr PNone,
      append_message c (PDict [(''role'', PStr ''assistant''), (''content'', r), (''citations'', cits)]) st)"
| "collaborators_up docs (QueryChatDocs c q) st = (Inr (PDict [(''documents'', PList [PList docs])]), st)"
| "collaborators_up docs GetCollection st = (Inr (PStr ''collection''), st)"
| "collaborators_up docs (FormatRagContext r) st = (Inr (format_rag_context r), st)"
| "collaborators_up docs (FormatChatHistory h n) st = (Inr (format_chat_history h n), st)"
| "collaborators_up docs (TruncateContextIfNeeded c h n) st =
     (truncate_context_if_needed block_tokens c h n, st)"
| "collaborators_up docs (PrepareLLMPayload c h p) st =
     (Inr (PDict [(''context'', c), (''history'', h), (''prompt'', PStr p)]), st)"
| "collaborators_up docs (ExtractCitationsFromContext c r) st = (Inr (PList []), st)"
| "collaborators_up docs (GenerateWithContext p c h) st = (Inr (PStr ''answer''), st)"
| "collaborators_up docs (Generate p) st = (Inr (PStr ''answer''), st)"

text \<open>Modelled from the spec: the collaborators, with the calls selected by \<open>down\<close> raising.\<close>

definition collaborators :: "(call \<Rightarrow> bool) \<Rightarrow> pyval list \<Rightarrow> call \<Rightarrow> store \<Rightarrow> (exn + pyval) \<times> store" where
  "collaborators down docs k st =
     (if down k then (Inl (Exception ''unavailable''), st) else collaborators_up docs k st)"

text \<open>Modelled from the spec: a clock that stands still.\<close>

definition clock :: "store \<Rightarrow> string" where
  "clock st = ''2024-01-01T00:00:00''"

text \<open>Modelled from the spec: the store of its scenario, chat \<^verbatim>\<open>c1\<close> owned by \<^verbatim>\<open>u1\<close>.\<close>

definition one_chat :: store where
  "one_chat = [(''c1'', PDict [(''userId'', PStr ''u1''), (''conversation_history'', PList [])])]"

text \<open>No collaborator is down.\<close>

definition no_call :: "call \<Rightarrow> bool" where
  "no_call k = False"

section \<open>The world a run leaves\<close>

text \<open>
  Performing a list of calls one after the other from a world: their outcomes in
  order, and the world the last one leaves.
\<close>

fun perform_all :: "'w service \<Rightarrow> call list \<Rightarrow> 'w \<Rightarrow> (call \<times> (exn + pyval)) list \<times> 'w" where
  "perform_all svc [] w = ([], w)"
| "perform_all svc (k # ks) w =
     (case perform svc k w of
        (r, w') \<Rightarrow> (case perform_all svc ks w' of (tr, w'') \<Rightarrow> ((k, r) # tr, w'')))"

text \<open>
  A program threads the world when each of its runs extends the trace by the
  outcomes of some calls performed one after the other from the world it started
  in, and ends in the world those calls leave.
\<close>

definition threads :: "'w service \<Rightarrow> ('w, 'a) prog \<Rightarrow> bool" where
  "threads svc m \<longleftrightarrow>
     (\<forall>s res s'. m s = (res, s') \<longrightarrow>
        (\<exists>ks tr. trace s' = trace s @ tr \<and> perform_all svc ks (world s) = (tr, world s')))"

section \<open>Exceptions that reach the caller\<close>

text \<open>
  A program propagates the exceptions of the calls selected by \<open>P\<close> when, in each of
  its runs, such a call that raised is the reason the program raised: the
  program's result is that exception.
\<close>

definition propagates :: "(call \<Rightarrow> bool) \<Rightarrow> ('w, 'a) prog \<Rightarrow> bool" where
  "propagates P m \<longleftrightarrow>
     (\<forall>s res s'. m s = (res, s') \<longrightarrow>
        (\<exists>tr. trace s' = trace s @ tr \<and> (\<forall>k e. (k, Inl e) \<in> set tr \<longrightarrow> P k \<longrightarrow> res = Inl e)))"


section \<open>Properties of every call of a run\<close>

text \<open>Each call a program makes, with its outcome, satisfies \<open>E\<close>.\<close>

definition all_calls :: "(call \<times> (exn + pyval) \<Rightarrow> bool) \<Rightarrow> ('w, 'a) prog \<Rightarrow> bool" where
  "all_calls E m \<longleftrightarrow>
     (\<forall>s res s'. m s = (res, s') \<longrightarrow> (\<exists>tr. trace s' = trace s @ tr \<and> (\<forall>x\<in>set tr. E x)))"

text \<open>
  A call of \<open>prepare_llm_payload\<close> carries the prompt \<open>p\<close>, and a context and a history
  whose estimates together stay within the service's token budget.
\<close>

definition payload_ok :: "'w service \<Rightarrow> (pyval \<Rightarrow> nat) \<Rightarrow> string \<Rightarrow> call \<times> (exn + pyval) \<Rightarrow> bool" where
  "payload_ok svc est p x \<longleftrightarrow>
     (\<forall>a b q. fst x = PrepareLLMPayload a b q \<longrightarrow>
        q = p \<and> (\<exists>c h. a = PList c \<and> b = PList h \<and>
                   tokens est c + tokens est h \<le> nat (max_tokens svc)))"


text \<open>Modelled from the spec: six small retrieved documents.\<close>

definition six_docs :: "pyval list" where
  "six_docs = [doc ''d1'' 10, doc ''d2'' 10, doc ''d3'' 10, doc ''d4'' 10, doc ''d5'' 10, doc ''d6'' 10]"

section \<open>Unfolding and evaluation\<close>

lemmas run_defs =
  process_chat_prompt_def process_steps_def validate_chat_and_user_def answer_prompt_def
  respond_with_context_def retrieve_relevant_context_def generate_llm_response_def
  llm_generation_def report_error_def bind_x_def try_except_def invoke_def lift_x_def
  return_x_def raise_x_def start_def owner_mismatch_def py_unpack2_def

lemmas demo_defs =
  init_def collaborators_def one_chat_def append_message_def truncate_blocks_def tokens_def
  block_tokens_def doc_def clock_def no_call_def

section \<open>Runs of the sub-programs\<close>

lemma generation_not_append: "is_generation k \<Longrightarrow> is_append k \<Longrightarrow> False"
  by (cases k) auto

lemma invoke_eq:
  "invoke svc c s = (r, s') \<longleftrightarrow>
     (\<exists>w'. perform svc c (world s) = (r, w') \<and> s' = \<lparr>world = w', trace = trace s @ [(c, r)]\<rparr>)"
  by (auto simp: invoke_def split: prod.splits)

lemma invoke_trace: "invoke svc c s = (r, s') \<Longrightarrow> trace s' = trace s @ [(c, r)]"
  by (auto simp: invoke_eq)

text \<open>Retrieval makes one call and always returns: the results, or the empty dict.\<close>

lemma retrieve_cases:
  "\<exists>v out w'. perform svc (QueryChatDocs c q) (world s) = (out, w') \<and>
     retrieve_relevant_context svc c q s =
       (Inr v, \<lparr>world = w', trace = trace s @ [(QueryChatDocs c q, out)]\<rparr>) \<and>
     (case out of Inl e \<Rightarrow> v = PDict [] | Inr res \<Rightarrow> v = res \<or> v = PDict [])"
  by (auto simp: retrieve_relevant_context_def try_except_def bind_x_def invoke_def lift_x_def
      return_x_def split: prod.splits sum.splits)

lemma retrieve_trace:
  assumes "retrieve_relevant_context svc c q s = (r, s')"
  shows "\<exists>out. trace s' = trace s @ [(QueryChatDocs c q, out)]"
  using assms retrieve_cases[of svc c q s] by auto

text \<open>Generation makes at most one call, to the language model, and always returns.\<close>

lemma generate_cases:
  "\<exists>v s'. generate_llm_response svc payload s = (Inr v, s') \<and>
     (s' = s \<and> v = PStr fallback_response \<or>
      (\<exists>k out w'. is_generation k \<and> perform svc k (world s) = (out, w') \<and>
         s' = \<lparr>world = w', trace = trace s @ [(k, out)]\<rparr> \<and>
         v = (case out of Inl e \<Rightarrow> PStr fallback_response | Inr x \<Rightarrow> x)))"
  by (cases payload)
     (auto simp: generate_llm_response_def llm_generation_def try_except_def bind_x_def invoke_def
        lift_x_def return_x_def split: prod.splits sum.splits option.splits)

lemma generate_trace:
  assumes "generate_llm_response svc payload s = (r, s')"
  shows "\<exists>tr. trace s' = trace s @ tr \<and> (\<forall>e\<in>set tr. is_generation (fst e)) \<and>
           (\<forall>k e. (k, Inl e) \<in> set tr \<longrightarrow> r = Inr (PStr fallback_response))"
  using assms generate_cases[of svc payload s] by auto

text \<open>A run of \<open>process_chat_prompt\<close> that returns went through every step.\<close>

lemma process_returns:
  assumes "process_chat_prompt svc c p u s0 = (Inr r, s)"
  shows "\<exists>chat s1 x s2 rag s3 fctx s4 chat2 s5 hist fhist s6 opt s7 octx ohist payload s8 resp s9
            cits s10 y nctx nhist.
     invoke svc (GetChat c) s0 = (Inr chat, s1) \<and> truthy chat \<and>
     owner_mismatch chat u = Inr False \<and>
     invoke svc (AddPromptToChat c p) s1 = (Inr x, s2) \<and>
     retrieve_relevant_context svc c p s2 = (Inr rag, s3) \<and>
     invoke svc (FormatRagContext rag) s3 = (Inr fctx, s4) \<and>
     invoke svc (GetChat c) s4 = (Inr chat2, s5) \<and>
     py_get chat2 ''conversation_history'' (PList []) = Inr hist \<and>
     invoke svc (FormatChatHistory hist (max_chat_history svc)) s5 = (Inr fhist, s6) \<and>
     invoke svc (TruncateContextIfNeeded fctx fhist (max_tokens svc)) s6 = (Inr opt, s7) \<and>
     py_unpack2 opt = Inr (octx, ohist) \<and>
     invoke svc (PrepareLLMPayload octx ohist p) s7 = (Inr payload, s8) \<and>
     generate_llm_response svc payload s8 = (Inr resp, s9) \<and>
     invoke svc (ExtractCitationsFromContext octx resp) s9 = (Inr cits, s10) \<and>
     invoke svc (AddAssistantResponseToChat c resp cits) s10 = (Inr y, s) \<and>
     py_len octx = Inr nctx \<and> py_len ohist = Inr nhist \<and>
     r = PDict [(''chatId'', PStr c), (''response'', resp), (''citations'', cits),
                (''contextUsed'', PInt (int nctx)), (''historyUsed'', PInt (int nhist)),
                (''timestamp'', PStr (utcnow_isoformat svc (world s)))]"
  using assms
  by (auto simp: process_chat_prompt_def process_steps_def validate_chat_and_user_def
      answer_prompt_def respond_with_context_def report_error_def try_except_def bind_x_def
      lift_x_def return_x_def raise_x_def split: prod.splits sum.splits if_splits)

text \<open>Validation, and the handler of the outer \<^verbatim>\<open>try\<close>.\<close>

lemma validate_cases:
  assumes "perform svc (GetChat c) (world s0) = (out, w1)"
  shows "validate_chat_and_user svc c u s0 =
     (case out of
        Inl e \<Rightarrow> Inl e
      | Inr chat \<Rightarrow>
          if \<not> truthy chat then Inl (ValueError (''Chat not found: '' @ c))
          else (case owner_mismatch chat u of
                  Inl e \<Rightarrow> Inl e
                | Inr mismatch \<Rightarrow>
                    if mismatch then Inl (ValueError ''User ID does not match chat owner'')
                    else Inr chat),
      \<lparr>world = w1, trace = trace s0 @ [(GetChat c, out)]\<rparr>)"
  using assms
  by (auto simp: validate_chat_and_user_def bind_x_def invoke_def lift_x_def raise_x_def return_x_def
      split: sum.splits)

lemma report_error_run:
  assumes "perform svc (AddAssistantResponseToChat c (PStr error_response) (PList [])) (world s1) = (out, w2)"
  shows "report_error svc c e s1 =
     (Inl e, \<lparr>world = w2,
              trace = trace s1 @ [(AddAssistantResponseToChat c (PStr error_response) (PList []), out)]\<rparr>)"
  using assms
  by (auto simp: report_error_def bind_x_def try_except_def invoke_def raise_x_def return_x_def
      split: sum.splits)

text \<open>Composition rules for \<open>propagates\<close>.\<close>

lemma propagates_return: "propagates P (return_x v)"
  by (simp add: propagates_def return_x_def)

lemma propagates_raise: "propagates P (raise_x e)"
  by (simp add: propagates_def raise_x_def)

lemma propagates_lift: "propagates P (lift_x r)"
  by (simp add: propagates_def lift_x_def)

lemma propagates_invoke: "propagates P (invoke svc k)"
  by (auto simp: propagates_def invoke_eq)

lemma propagates_bind:
  assumes m: "propagates P m" and f: "\<And>v. propagates P (f v)"
  shows "propagates P (bind_x m f)"
  unfolding propagates_def
proof (intro allI impI)
  fix s res s'
  assume run: "bind_x m f s = (res, s')"
  obtain r1 s1 where m1: "m s = (r1, s1)" by (cases "m s")
  from m m1 obtain tr1 where t1: "trace s1 = trace s @ tr1"
    and e1: "\<forall>k e. (k, Inl e) \<in> set tr1 \<longrightarrow> P k \<longrightarrow> r1 = Inl e"
    unfolding propagates_def by blast
  show "\<exists>tr. trace s' = trace s @ tr \<and> (\<forall>k e. (k, Inl e) \<in> set tr \<longrightarrow> P k \<longrightarrow> res = Inl e)"
  proof (cases r1)
    case (Inl e')
    with run m1 have "res = Inl e'" "s' = s1" by (auto simp: bind_x_def)
    with t1 e1 Inl show ?thesis by auto
  next
    case (Inr v)
    with run m1 have "f v s1 = (res, s')" by (auto simp: bind_x_def)
    with f[of v] obtain tr2 where t2: "trace s' = trace s1 @ tr2"
      and e2: "\<forall>k e. (k, Inl e) \<in> set tr2 \<longrightarrow> P k \<longrightarrow> res = Inl e"
      unfolding propagates_def by blast
    from e1 Inr have "\<forall>k e. (k, Inl e) \<in> set tr1 \<longrightarrow> \<not> P k" by auto
    with t1 t2 e2 have "trace s' = trace s @ (tr1 @ tr2) \<and>
        (\<forall>k e. (k, Inl e) \<in> set (tr1 @ tr2) \<longrightarrow> P k \<longrightarrow> res = Inl e)"
      by auto
    then show ?thesis by blast
  qed
qed

lemma propagates_retrieve:
  assumes "\<And>k. P k \<Longrightarrow> \<not> is_chroma k"
  shows "propagates P (retrieve_relevant_context svc c q)"
  unfolding propagates_def
  using assms[of "QueryChatDocs c q"] by (auto dest!: retrieve_trace)

lemma propagates_generate:
  assumes "\<And>k. P k \<Longrightarrow> \<not> is_generation k"
  shows "propagates P (generate_llm_response svc payload)"
  unfolding propagates_def
proof (intro allI impI)
  fix s res s'
  assume "generate_llm_response svc payload s = (res, s')"
  from generate_trace[OF this] obtain tr where "trace s' = trace s @ tr"
    and "\<forall>e\<in>set tr. is_generation (fst e)" by blast
  with assms have "trace s' = trace s @ tr \<and> (\<forall>k e. (k, Inl e) \<in> set tr \<longrightarrow> P k \<longrightarrow> res = Inl e)"
    by fastforce
  then show "\<exists>tr. trace s' = trace s @ tr \<and> (\<forall>k e. (k, Inl e) \<in> set tr \<longrightarrow> P k \<longrightarrow> res = Inl e)"
    by blast
qed

lemma propagates_case_prod:
  assumes "\<And>a b. propagates P (f a b)"
  shows "propagates P (case_prod f x)"
  using assms by (cases x) simp

lemma propagates_reads: "propagates P (\<lambda>s. return_x (g s) s)"
  by (simp add: propagates_def return_x_def)

lemma propagates_if:
  assumes "b \<Longrightarrow> propagates P m" and "\<not> b \<Longrightarrow> propagates P n"
  shows "propagates P (if b then m else n)"
  using assms by simp

lemma propagates_respond:
  assumes "\<And>k. P k \<Longrightarrow> \<not> is_generation k"
  shows "propagates P (respond_with_context svc c p fctx)"
  unfolding respond_with_context_def
  by (intro propagates_bind propagates_invoke propagates_lift propagates_generate
        propagates_case_prod propagates_reads assms)

lemma propagates_steps:
  assumes g: "\<And>k. P k \<Longrightarrow> \<not> is_generation k" and r: "\<And>k. P k \<Longrightarrow> \<not> is_chroma k"
  shows "propagates P (process_steps svc c p u)"
  unfolding process_steps_def answer_prompt_def validate_chat_and_user_def
  by (intro propagates_bind propagates_invoke propagates_lift propagates_retrieve
        propagates_respond propagates_if propagates_raise propagates_return g r)


lemma propagates_answer:
  assumes g: "\<And>k. P k \<Longrightarrow> \<not> is_generation k" and r: "\<And>k. P k \<Longrightarrow> \<not> is_chroma k"
  shows "propagates P (answer_prompt svc c p)"
  unfolding answer_prompt_def
  by (intro propagates_bind propagates_invoke propagates_retrieve propagates_respond g r)

lemma answer_extends:
  assumes "answer_prompt svc c p s = (res, s')"
  shows "\<exists>tr. trace s' = trace s @ tr"
  using propagates_answer[of "\<lambda>k. False" svc c p] assms
  unfolding propagates_def by blast

lemma steps_validation:
  assumes g: "perform svc (GetChat c) (world s0) = (out, w1)"
      and run: "process_steps svc c p u s0 = (res, s1)"
  shows "(\<exists>tr. trace s1 = trace s0 @ (GetChat c, out) # tr) \<and>
         (\<forall>chat. out = Inr chat \<longrightarrow> \<not> truthy chat \<longrightarrow>
            res = Inl (ValueError (''Chat not found: '' @ c)) \<and>
            s1 = \<lparr>world = w1, trace = trace s0 @ [(GetChat c, out)]\<rparr>) \<and>
         (\<forall>chat. out = Inr chat \<longrightarrow> truthy chat \<longrightarrow> owner_mismatch chat u = Inr True \<longrightarrow>
            res = Inl (ValueError ''User ID does not match chat owner'') \<and>
            s1 = \<lparr>world = w1, trace = trace s0 @ [(GetChat c, out)]\<rparr>) \<and>
         (\<forall>chat. out = Inr chat \<longrightarrow> truthy chat \<longrightarrow> owner_mismatch chat u = Inr False \<longrightarrow>
            answer_prompt svc c p \<lparr>world = w1, trace = trace s0 @ [(GetChat c, out)]\<rparr> = (res, s1))"
proof -
  let ?sv = "\<lparr>world = w1, trace = trace s0 @ [(GetChat c, out)]\<rparr>"
  note v = validate_cases[OF g, of u]
  have ext: "\<exists>tr. trace s1 = trace s0 @ (GetChat c, out) # tr"
  proof (cases "fst (validate_chat_and_user svc c u s0)")
    case (Inl e)
    with v run have "s1 = ?sv"
      by (cases "validate_chat_and_user svc c u s0") (auto simp: process_steps_def bind_x_def)
    then show ?thesis by simp
  next
    case (Inr chat)
    with v run have "answer_prompt svc c p ?sv = (res, s1)"
      by (cases "validate_chat_and_user svc c u s0") (auto simp: process_steps_def bind_x_def)
    from answer_extends[OF this] show ?thesis by auto
  qed
  moreover have "\<forall>chat. out = Inr chat \<longrightarrow> \<not> truthy chat \<longrightarrow>
            res = Inl (ValueError (''Chat not found: '' @ c)) \<and> s1 = ?sv"
    using v run by (auto simp: process_steps_def bind_x_def)
  moreover have "\<forall>chat. out = Inr chat \<longrightarrow> truthy chat \<longrightarrow> owner_mismatch chat u = Inr True \<longrightarrow>
            res = Inl (ValueError ''User ID does not match chat owner'') \<and> s1 = ?sv"
    using v run by (auto simp: process_steps_def bind_x_def)
  moreover have "\<forall>chat. out = Inr chat \<longrightarrow> truthy chat \<longrightarrow> owner_mismatch chat u = Inr False \<longrightarrow>
            answer_prompt svc c p ?sv = (res, s1)"
    using v run by (auto simp: process_steps_def bind_x_def)
  ultimately show ?thesis by blast
qed

lemma process_from_steps:
  assumes "process_steps svc c p u s0 = (res, s1)"
      and "perform svc (AddAssistantResponseToChat c (PStr error_response) (PList [])) (world s1) = (out, w2)"
  shows "process_chat_prompt svc c p u s0 =
     (case res of
        Inl e \<Rightarrow> (Inl e, \<lparr>world = w2, trace = trace s1 @
                      [(AddAssistantResponseToChat c (PStr error_response) (PList []), out)]\<rparr>)
      | Inr r \<Rightarrow> (Inr r, s1))"
  using assms report_error_run[OF assms(2)]
  by (auto simp: process_chat_prompt_def try_except_def split: sum.splits)

text \<open>A run of steps 4 to 9 that returns.\<close>

lemma respond_returns:
  assumes "respond_with_context svc c p fctx s4 = (Inr r, s)"
  shows "\<exists>chat2 s5 hist fhist s6 opt s7 octx ohist payload s8 resp s9 cits s10 y nctx nhist.
     invoke svc (GetChat c) s4 = (Inr chat2, s5) \<and>
     py_get chat2 ''conversation_history'' (PList []) = Inr hist \<and>
     invoke svc (FormatChatHistory hist (max_chat_history svc)) s5 = (Inr fhist, s6) \<and>
     invoke svc (TruncateContextIfNeeded fctx fhist (max_tokens svc)) s6 = (Inr opt, s7) \<and>
     py_unpack2 opt = Inr (octx, ohist) \<and>
     invoke svc (PrepareLLMPayload octx ohist p) s7 = (Inr payload, s8) \<and>
     generate_llm_response svc payload s8 = (Inr resp, s9) \<and>
     invoke svc (ExtractCitationsFromContext octx resp) s9 = (Inr cits, s10) \<and>
     invoke svc (AddAssistantResponseToChat c resp cits) s10 = (Inr y, s) \<and>
     py_len octx = Inr nctx \<and> py_len ohist = Inr nhist \<and>
     r = PDict [(''chatId'', PStr c), (''response'', resp), (''citations'', cits),
                (''contextUsed'', PInt (int nctx)), (''historyUsed'', PInt (int nhist)),
                (''timestamp'', PStr (utcnow_isoformat svc (world s)))]"
  using assms
  by (auto simp: respond_with_context_def bind_x_def lift_x_def return_x_def
      split: prod.splits sum.splits if_splits)

text \<open>The in-memory formatter meets the contract on empty contexts.\<close>

lemma demo_keeps_empty: "keeps_empty_context (init (collaborators down docs) clock)"
  unfolding keeps_empty_context_def
  by (auto simp: init_def collaborators_def truncate_blocks_def py_unpack2_def
      elim!: truncate_context_if_needed.elims split: if_splits)

text \<open>The specified truncation stays within the budget.\<close>

lemma tokens_fit_prefix: "tokens est (fit_prefix est room bs) \<le> room"
proof (induction bs arbitrary: room)
  case Nil
  show ?case by (simp add: tokens_def)
next
  case (Cons b bs)
  show ?case
  proof (cases "est b \<le> room")
    case True
    from Cons.IH[of "room - est b"] have "tokens est (fit_prefix est (room - est b) bs) \<le> room - est b" .
    with True show ?thesis by (simp add: tokens_def)
  next
    case False
    then show ?thesis by (simp add: tokens_def)
  qed
qed

lemma tokens_rev: "tokens est (rev bs) = tokens est bs"
  by (simp add: tokens_def rev_map[symmetric] sum_list_rev del: rev_map)

lemma truncate_blocks_bound:
  assumes "truncate_blocks est budget c h = (c', h')"
  shows "tokens est c' + tokens est h' \<le> budget"
proof -
  have 1: "tokens est (fit_prefix est (budget - tokens est h) c) \<le> budget - tokens est h"
    by (rule tokens_fit_prefix)
  have 2: "tokens est (rev (fit_prefix est budget (rev h))) \<le> budget"
    by (simp add: tokens_rev tokens_fit_prefix)
  have 3: "tokens est [] = 0" by (simp add: tokens_def)
  from assms 1 2 3 show ?thesis
    by (auto simp: truncate_blocks_def split: if_splits)
qed

lemma truncate_result_bound:
  assumes "truncate_context_if_needed est c h n = Inr opt" and "py_unpack2 opt = Inr (a, b)"
  shows "\<exists>c' h'. a = PList c' \<and> b = PList h' \<and> tokens est c' + tokens est h' \<le> nat n"
  using assms
  by (auto simp: py_unpack2_def elim!: truncate_context_if_needed.elims split: prod.splits)
     (erule truncate_blocks_bound)


text \<open>Composition rules for \<open>all_calls\<close>.\<close>

lemma all_calls_return: "all_calls E (return_x v)"
  by (simp add: all_calls_def return_x_def)

lemma all_calls_raise: "all_calls E (raise_x e)"
  by (simp add: all_calls_def raise_x_def)

lemma all_calls_lift: "all_calls E (lift_x r)"
  by (simp add: all_calls_def lift_x_def)

lemma all_calls_reads: "all_calls E (\<lambda>s. return_x (g s) s)"
  by (simp add: all_calls_def return_x_def)

lemma all_calls_invoke:
  assumes "\<And>out. E (k, out)"
  shows "all_calls E (invoke svc k)"
  using assms by (auto simp: all_calls_def invoke_eq)

lemma all_calls_bind:
  assumes m: "all_calls E m" and f: "\<And>v s s'. m s = (Inr v, s') \<Longrightarrow> all_calls E (f v)"
  shows "all_calls E (bind_x m f)"
  unfolding all_calls_def
proof (intro allI impI)
  fix s res s'
  assume run: "bind_x m f s = (res, s')"
  obtain r1 s1 where m1: "m s = (r1, s1)" by (cases "m s")
  from m m1 obtain tr1 where t1: "trace s1 = trace s @ tr1" and e1: "\<forall>x\<in>set tr1. E x"
    unfolding all_calls_def by blast
  show "\<exists>tr. trace s' = trace s @ tr \<and> (\<forall>x\<in>set tr. E x)"
  proof (cases r1)
    case (Inl e')
    with run m1 have "s' = s1" by (auto simp: bind_x_def)
    with t1 e1 show ?thesis by auto
  next
    case (Inr v)
    with run m1 have fv: "f v s1 = (res, s')" by (auto simp: bind_x_def)
    from m1 Inr have "m s = (Inr v, s1)" by simp
    from f[OF this] fv obtain tr2 where t2: "trace s' = trace s1 @ tr2" and e2: "\<forall>x\<in>set tr2. E x"
      unfolding all_calls_def by blast
    from t1 t2 e1 e2 have "trace s' = trace s @ (tr1 @ tr2) \<and> (\<forall>x\<in>set (tr1 @ tr2). E x)"
      by auto
    then show ?thesis by blast
  qed
qed

lemma all_calls_try:
  assumes m: "all_calls E m" and h: "\<And>e. all_calls E (h e)"
  shows "all_calls E (try_except m h)"
  unfolding all_calls_def
proof (intro allI impI)
  fix s res s'
  assume run: "try_except m h s = (res, s')"
  obtain r1 s1 where m1: "m s = (r1, s1)" by (cases "m s")
  from m m1 obtain tr1 where t1: "trace s1 = trace s @ tr1" and e1: "\<forall>x\<in>set tr1. E x"
    unfolding all_calls_def by blast
  show "\<exists>tr. trace s' = trace s @ tr \<and> (\<forall>x\<in>set tr. E x)"
  proof (cases r1)
    case (Inr v)
    with run m1 have "s' = s1" by (auto simp: try_except_def)
    with t1 e1 show ?thesis by auto
  next
    case (Inl e')
    with run m1 have "h e' s1 = (res, s')" by (auto simp: try_except_def)
    with h[of e'] obtain tr2 where t2: "trace s' = trace s1 @ tr2" and e2: "\<forall>x\<in>set tr2. E x"
      unfolding all_calls_def by blast
    from t1 t2 e1 e2 have "trace s' = trace s @ (tr1 @ tr2) \<and> (\<forall>x\<in>set (tr1 @ tr2). E x)"
      by auto
    then show ?thesis by blast
  qed
qed

lemma all_calls_if:
  assumes "b \<Longrightarrow> all_calls E m" and "\<not> b \<Longrightarrow> all_calls E n"
  shows "all_calls E (if b then m else n)"
  using assms by simp

lemma all_calls_retrieve:
  assumes "\<And>out. E (QueryChatDocs c q, out)"
  shows "all_calls E (retrieve_relevant_context svc c q)"
  unfolding all_calls_def using assms by (auto dest!: retrieve_trace)

lemma all_calls_generate:
  assumes "\<And>k out. is_generation k \<Longrightarrow> E (k, out)"
  shows "all_calls E (generate_llm_response svc payload)"
  unfolding all_calls_def
proof (intro allI impI)
  fix s res s'
  assume "generate_llm_response svc payload s = (res, s')"
  from generate_trace[OF this] obtain tr where "trace s' = trace s @ tr"
    and "\<forall>e\<in>set tr. is_generation (fst e)" by blast
  with assms have "trace s' = trace s @ tr \<and> (\<forall>x\<in>set tr. E x)"
    by (metis prod.collapse)
  then show "\<exists>tr. trace s' = trace s @ tr \<and> (\<forall>x\<in>set tr. E x)" by blast
qed

text \<open>Every payload the service builds is within the budget, when truncation is as specified.\<close>

lemma payload_ok_other: "(\<And>a b q. k \<noteq> PrepareLLMPayload a b q) \<Longrightarrow> payload_ok svc est p (k, out)"
  by (simp add: payload_ok_def)

lemma all_calls_respond_payload:
  assumes spec: "truncates_as_specified est svc"
  shows "all_calls (payload_ok svc est p) (respond_with_context svc c p fctx)"
  unfolding respond_with_context_def
proof (intro all_calls_bind all_calls_invoke all_calls_lift all_calls_generate payload_ok_other)
  fix v s s' va sa s'a vb sb s'b vc sc s'c
  assume t: "invoke svc (TruncateContextIfNeeded fctx vb (max_tokens svc)) sc = (Inr vc, s'c)"
  fix vd sd s'd
  assume u: "lift_x (py_unpack2 vc) sd = (Inr vd, s'd)"
  show "all_calls (payload_ok svc est p)
          (case vd of (optimized_context, optimized_history) \<Rightarrow>
             bind_x (invoke svc (PrepareLLMPayload optimized_context optimized_history p))
               (\<lambda>llm_payload. bind_x (generate_llm_response svc llm_payload)
                 (\<lambda>assistant_response.
                    bind_x (invoke svc (ExtractCitationsFromContext optimized_context assistant_response))
                     (\<lambda>citations.
                        bind_x (invoke svc (AddAssistantResponseToChat c assistant_response citations))
                         (\<lambda>_. bind_x (lift_x (py_len optimized_context))
                               (\<lambda>context_used.
                                  bind_x (lift_x (py_len optimized_history))
                                   (\<lambda>history_used s.
                                      return_x (PDict
                                         [(''chatId'', PStr c), (''response'', assistant_response),
                                          (''citations'', citations),
                                          (''contextUsed'', PInt (int context_used)),
                                          (''historyUsed'', PInt (int history_used)),
                                          (''timestamp'', PStr (utcnow_isoformat svc (world s)))]) s)))))))"
  proof (cases vd)
    case (Pair a b)
    from t spec have "truncate_context_if_needed est fctx vb (max_tokens svc) = Inr vc"
      by (auto simp: invoke_eq truncates_as_specified_def dest: arg_cong[where f=fst])
    moreover from u Pair have "py_unpack2 vc = Inr (a, b)" by (simp add: lift_x_def)
    ultimately have ok: "\<And>out. payload_ok svc est p (PrepareLLMPayload a b p, out)"
      using truncate_result_bound by (fastforce simp: payload_ok_def)
    show ?thesis
      unfolding Pair prod.case
      by (intro all_calls_bind all_calls_invoke all_calls_lift all_calls_generate all_calls_reads
            payload_ok_other ok) auto
  qed
qed auto


lemma all_calls_process_payload:
  assumes spec: "truncates_as_specified est svc"
  shows "all_calls (payload_ok svc est p) (process_chat_prompt svc c p u)"
  unfolding process_chat_prompt_def process_steps_def validate_chat_and_user_def answer_prompt_def
    report_error_def
  by (intro all_calls_try all_calls_bind all_calls_invoke all_calls_lift all_calls_retrieve
        all_calls_if all_calls_raise all_calls_return payload_ok_other
        all_calls_respond_payload[OF spec]) auto

text \<open>No method reads \<open>max_rag_results\<close>.\<close>

lemma invoke_limit: "invoke (svc\<lparr>max_rag_results := k\<rparr>) = invoke svc"
  by (simp add: invoke_def fun_eq_iff)

lemma generate_limit:
  "generate_llm_response (svc\<lparr>max_rag_results := k\<rparr>) = generate_llm_response svc"
  by (simp add: fun_eq_iff generate_llm_response_def llm_generation_def invoke_limit cong: if_cong)

lemma respond_limit:
  "respond_with_context (svc\<lparr>max_rag_results := k\<rparr>) = respond_with_context svc"
  by (simp add: fun_eq_iff respond_with_context_def invoke_limit generate_limit)

lemma report_error_limit: "report_error (svc\<lparr>max_rag_results := k\<rparr>) = report_error svc"
  by (simp add: fun_eq_iff report_error_def invoke_limit)

text \<open>Every program of the service threads the world through its calls.\<close>

lemma perform_all_append:
  assumes "perform_all svc ks w = (tr, w')" and "perform_all svc ks' w' = (tr', w'')"
  shows "perform_all svc (ks @ ks') w = (tr @ tr', w'')"
  using assms
  by (induction ks arbitrary: w tr) (auto split: prod.splits)

lemma perform_all_calls:
  assumes "perform_all svc ks w = (tr, w')"
  shows "map fst tr = ks"
  using assms
  by (induction ks arbitrary: w tr) (auto split: prod.splits)

lemma threads_return: "threads svc (return_x v)"
  unfolding threads_def return_x_def
  by (auto intro!: exI[of _ "[]"])

lemma threads_raise: "threads svc (raise_x e)"
  unfolding threads_def raise_x_def
  by (auto intro!: exI[of _ "[]"])

lemma threads_lift: "threads svc (lift_x r)"
  unfolding threads_def lift_x_def
  by (auto intro!: exI[of _ "[]"])

lemma threads_reads: "threads svc (\<lambda>s. return_x (g s) s)"
  unfolding threads_def return_x_def
  by (auto intro!: exI[of _ "[]"])

lemma threads_invoke: "threads svc (invoke svc k)"
  unfolding threads_def
  by (auto simp: invoke_eq intro!: exI[of _ "[k]"])

lemma threads_bind:
  assumes m: "threads svc m" and f: "\<And>v. threads svc (f v)"
  shows "threads svc (bind_x m f)"
  unfolding threads_def
proof (intro allI impI)
  fix s res s'
  assume run: "bind_x m f s = (res, s')"
  obtain r1 s1 where m1: "m s = (r1, s1)" by (cases "m s")
  from m m1 obtain ks1 tr1 where t1: "trace s1 = trace s @ tr1"
    and p1: "perform_all svc ks1 (world s) = (tr1, world s1)"
    unfolding threads_def by blast
  show "\<exists>ks tr. trace s' = trace s @ tr \<and> perform_all svc ks (world s) = (tr, world s')"
  proof (cases r1)
    case (Inl e')
    with run m1 have "s' = s1" by (auto simp: bind_x_def)
    with t1 p1 show ?thesis by blast
  next
    case (Inr v)
    with run m1 have "f v s1 = (res, s')" by (auto simp: bind_x_def)
    with f[of v] obtain ks2 tr2 where t2: "trace s' = trace s1 @ tr2"
      and p2: "perform_all svc ks2 (world s1) = (tr2, world s')"
      unfolding threads_def by blast
    from perform_all_append[OF p1 p2] t1 t2
    have "trace s' = trace s @ (tr1 @ tr2) \<and>
          perform_all svc (ks1 @ ks2) (world s) = (tr1 @ tr2, world s')"
      by simp
    then show ?thesis by blast
  qed
qed

lemma threads_try:
  assumes m: "threads svc m" and h: "\<And>e. threads svc (h e)"
  shows "threads svc (try_except m h)"
  unfolding threads_def
proof (intro allI impI)
  fix s res s'
  assume run: "try_except m h s = (res, s')"
  obtain r1 s1 where m1: "m s = (r1, s1)" by (cases "m s")
  from m m1 obtain ks1 tr1 where t1: "trace s1 = trace s @ tr1"
    and p1: "perform_all svc ks1 (world s) = (tr1, world s1)"
    unfolding threads_def by blast
  show "\<exists>ks tr. trace s' = trace s @ tr \<and> perform_all svc ks (world s) = (tr, world s')"
  proof (cases r1)
    case (Inr v)
    with run m1 have "s' = s1" by (auto simp: try_except_def)
    with t1 p1 show ?thesis by blast
  next
    case (Inl e')
    with run m1 have "h e' s1 = (res, s')" by (auto simp: try_except_def)
    with h[of e'] obtain ks2 tr2 where t2: "trace s' = trace s1 @ tr2"
      and p2: "perform_all svc ks2 (world s1) = (tr2, world s')"
      unfolding threads_def by blast
    from perform_all_append[OF p1 p2] t1 t2
    have "trace s' = trace s @ (tr1 @ tr2) \<and>
          perform_all svc (ks1 @ ks2) (world s) = (tr1 @ tr2, world s')"
      by simp
    then show ?thesis by blast
  qed
qed

lemma threads_if:
  assumes "b \<Longrightarrow> threads svc m" and "\<not> b \<Longrightarrow> threads svc n"
  shows "threads svc (if b then m else n)"
  using assms by simp

lemma threads_case_prod:
  assumes "\<And>a b. threads svc (f a b)"
  shows "threads svc (case_prod f x)"
  using assms by (cases x) simp

lemma threads_process: "threads svc (process_chat_prompt svc c p u)"
  unfolding process_chat_prompt_def process_steps_def validate_chat_and_user_def answer_prompt_def
    respond_with_context_def retrieve_relevant_context_def generate_llm_response_def
    llm_generation_def report_error_def
  by (intro threads_try threads_bind threads_invoke threads_lift threads_if threads_raise
        threads_return threads_case_prod threads_reads)

lemma process_world:
  assumes "process_chat_prompt svc c p u (start w) = (res, s)"
  shows "perform_all svc (map fst (trace s)) w = (trace s, world s)"
proof -
  from threads_process[of svc c p u] assms
  obtain ks tr where "trace s = trace (start w) @ tr"
    and pa: "perform_all svc ks (world (start w)) = (tr, world s)"
    unfolding threads_def by blast
  then have tr: "tr = trace s" by (simp add: start_def)
  from pa have "perform_all svc ks w = (trace s, world s)" by (simp add: tr start_def)
  with perform_all_calls[OF this] show ?thesis by simp
qed

section \<open>Claims\<close>

text \<open>
  C1.  Whenever \<open>process_chat_prompt\<close> returns a response, whatever the collaborators
  did (retrieval or generation may have raised), the appends to the session made
  during the run are exactly two, both completed: first the user's prompt through
  \<open>add_prompt_to_chat\<close>, then the assistant's message through
  \<open>add_assistant_response_to_chat\<close>, carrying the response and the citations of the
  returned dictionary.  That append is the last call of the run, so no response
  is returned without it.  The calls were really performed on the session: the
  world the run ends in is the one obtained by performing the calls of the trace
  one after the other from the initial world, that is, the world the assistant
  append left.
\<close>

theorem appends_exactly_once:
  assumes run: "process_chat_prompt svc chat_id user_prompt user_id (start w) = (Inr r, s)"
  shows "\<exists>x y resp cits.
           filter (\<lambda>e. is_append (fst e)) (trace s) =
             [(AddPromptToChat chat_id user_prompt, Inr x),
              (AddAssistantResponseToChat chat_id resp cits, Inr y)] \<and>
           py_getitem r ''response'' = Inr resp \<and>
           py_getitem r ''citations'' = Inr cits \<and>
           last (trace s) = (AddAssistantResponseToChat chat_id resp cits, Inr y) \<and>
           perform_all svc (map fst (trace s)) w = (trace s, world s) \<and>
           (\<exists>w'. perform svc (AddAssistantResponseToChat chat_id resp cits) w' = (Inr y, world s))"
proof -
  from process_returns[OF run]
  obtain chat s1 x s2 rag s3 fctx s4 chat2 s5 hist fhist s6 opt s7 octx ohist payload s8 resp s9
      cits s10 y nctx nhist
    where p1: "invoke svc (GetChat chat_id) (start w) = (Inr chat, s1)"
      and p2: "invoke svc (AddPromptToChat chat_id user_prompt) s1 = (Inr x, s2)"
      and p3: "retrieve_relevant_context svc chat_id user_prompt s2 = (Inr rag, s3)"
      and p4: "invoke svc (FormatRagContext rag) s3 = (Inr fctx, s4)"
      and p5: "invoke svc (GetChat chat_id) s4 = (Inr chat2, s5)"
      and p6: "invoke svc (FormatChatHistory hist (max_chat_history svc)) s5 = (Inr fhist, s6)"
      and p7: "invoke svc (TruncateContextIfNeeded fctx fhist (max_tokens svc)) s6 = (Inr opt, s7)"
      and p8: "invoke svc (PrepareLLMPayload octx ohist user_prompt) s7 = (Inr payload, s8)"
      and p9: "generate_llm_response svc payload s8 = (Inr resp, s9)"
      and p10: "invoke svc (ExtractCitationsFromContext octx resp) s9 = (Inr cits, s10)"
      and p11: "invoke svc (AddAssistantResponseToChat chat_id resp cits) s10 = (Inr y, s)"
      and r: "r = PDict [(''chatId'', PStr chat_id), (''response'', resp), (''citations'', cits),
                (''contextUsed'', PInt (int nctx)), (''historyUsed'', PInt (int nhist)),
                (''timestamp'', PStr (utcnow_isoformat svc (world s)))]"
    by (elim exE conjE) (rule that)
  from retrieve_trace[OF p3]
  obtain out where t3: "trace s3 = trace s2 @ [(QueryChatDocs chat_id user_prompt, out)]"
    by blast
  from generate_trace[OF p9]
  obtain tr where t9: "trace s9 = trace s8 @ tr" and gen: "\<forall>e\<in>set tr. is_generation (fst e)"
    by blast
  have no_app: "filter (\<lambda>e. is_append (fst e)) tr = []"
    using gen by (auto simp: filter_empty_conv dest: generation_not_append)
  have tr_s: "trace s =
      [(GetChat chat_id, Inr chat), (AddPromptToChat chat_id user_prompt, Inr x),
       (QueryChatDocs chat_id user_prompt, out), (FormatRagContext rag, Inr fctx),
       (GetChat chat_id, Inr chat2), (FormatChatHistory hist (max_chat_history svc), Inr fhist),
       (TruncateContextIfNeeded fctx fhist (max_tokens svc), Inr opt),
       (PrepareLLMPayload octx ohist user_prompt, Inr payload)] @ tr @
      [(ExtractCitationsFromContext octx resp, Inr cits),
       (AddAssistantResponseToChat chat_id resp cits, Inr y)]"
    using invoke_trace[OF p1] invoke_trace[OF p2] t3 invoke_trace[OF p4] invoke_trace[OF p5]
      invoke_trace[OF p6] invoke_trace[OF p7] invoke_trace[OF p8] t9 invoke_trace[OF p10]
      invoke_trace[OF p11]
    by (simp add: start_def)
  have appends: "filter (\<lambda>e. is_append (fst e)) (trace s) =
             [(AddPromptToChat chat_id user_prompt, Inr x),
              (AddAssistantResponseToChat chat_id resp cits, Inr y)] \<and>
           py_getitem r ''response'' = Inr resp \<and>
           py_getitem r ''citations'' = Inr cits \<and>
           last (trace s) = (AddAssistantResponseToChat chat_id resp cits, Inr y)"
    using no_app by (simp add: tr_s r)
  have replay: "perform_all svc (map fst (trace s)) w = (trace s, world s)"
    by (rule process_world[OF run])
  from p11 have final: "\<exists>w'. perform svc (AddAssistantResponseToChat chat_id resp cits) w' = (Inr y, world s)"
    by (auto simp: invoke_eq)
  from appends replay final show ?thesis by blast
qed

text \<open>
  The degraded run: vector store and language model both raise, chat \<^verbatim>\<open>c1\<close>, no user
  id.  The session ends with the prompt and the fallback answer appended.
\<close>

theorem appends_exactly_once_witness:
  "\<exists>r s. process_chat_prompt
            (init (collaborators (\<lambda>k. is_chroma k \<or> is_generation k) []) clock)
            ''c1'' ''hi'' None (start one_chat) = (Inr r, s) \<and>
         world s =
           [(''c1'', PDict [(''userId'', PStr ''u1''),
              (''conversation_history'',
               PList [PDict [(''role'', PStr ''user''), (''content'', PStr ''hi'')],
                      PDict [(''role'', PStr ''assistant''), (''content'', PStr fallback_response),
                             (''citations'', PList [])]])])] \<and>
         (\<exists>x y resp cits.
            filter (\<lambda>e. is_append (fst e)) (trace s) =
              [(AddPromptToChat ''c1'' ''hi'', Inr x),
               (AddAssistantResponseToChat ''c1'' resp cits, Inr y)] \<and>
            py_getitem r ''response'' = Inr resp \<and>
            py_getitem r ''citations'' = Inr cits \<and>
            last (trace s) = (AddAssistantResponseToChat ''c1'' resp cits, Inr y) \<and>
            perform_all (init (collaborators (\<lambda>k. is_chroma k \<or> is_generation k) []) clock)
              (map fst (trace s)) one_chat = (trace s, world s) \<and>
            (\<exists>w'. perform (init (collaborators (\<lambda>k. is_chroma k \<or> is_generation k) []) clock)
                     (AddAssistantResponseToChat ''c1'' resp cits) w' = (Inr y, world s)))"
proof -
  have "\<exists>r s. process_chat_prompt
            (init (collaborators (\<lambda>k. is_chroma k \<or> is_generation k) []) clock)
            ''c1'' ''hi'' None (start one_chat) = (Inr r, s) \<and>
         world s =
           [(''c1'', PDict [(''userId'', PStr ''u1''),
              (''conversation_history'',
               PList [PDict [(''role'', PStr ''user''), (''content'', PStr ''hi'')],
                      PDict [(''role'', PStr ''assistant''), (''content'', PStr fallback_response),
                             (''citations'', PList [])]])])]"
    by (simp add: run_defs demo_defs)
  then obtain r s where run: "process_chat_prompt
            (init (collaborators (\<lambda>k. is_chroma k \<or> is_generation k) []) clock)
            ''c1'' ''hi'' None (start one_chat) = (Inr r, s)"
    and world: "world s =
           [(''c1'', PDict [(''userId'', PStr ''u1''),
              (''conversation_history'',
               PList [PDict [(''role'', PStr ''user''), (''content'', PStr ''hi'')],
                      PDict [(''role'', PStr ''assistant''), (''content'', PStr fallback_response),
                             (''citations'', PList [])]])])]"
    by blast
  from appends_exactly_once[OF run] run world show ?thesis
    by blast
qed

text \<open>
  C5.  Let the body of the outer \<^verbatim>\<open>try\<close> end in state \<open>s1\<close> with result \<open>res\<close>.  If it
  raised \<open>e\<close>, the handler attempts to append the apology to the session, with an
  empty citation list; whatever the outcome \<open>out\<close> of that append (it may itself
  raise), \<open>process_chat_prompt\<close> raises the original \<open>e\<close>.  The body raises in
  particular when a collaborator call other than retrieval and generation raised
  (with that exception), when the session is missing (the chat is \<^verbatim>\<open>None\<close> or
  empty), and when the owner does not match.
\<close>

theorem error_path_apologises_and_reraises:
  assumes body: "process_steps svc chat_id user_prompt user_id (start w) = (res, s1)"
      and apology: "perform svc (AddAssistantResponseToChat chat_id (PStr error_response) (PList []))
                      (world s1) = (out, w2)"
  shows "(\<forall>e. res = Inl e \<longrightarrow>
            process_chat_prompt svc chat_id user_prompt user_id (start w) =
              (Inl e, \<lparr>world = w2, trace = trace s1 @
                 [(AddAssistantResponseToChat chat_id (PStr error_response) (PList []), out)]\<rparr>)) \<and>
         (\<forall>k e. (k, Inl e) \<in> set (trace s1) \<longrightarrow> \<not> is_chroma k \<longrightarrow> \<not> is_generation k \<longrightarrow>
            res = Inl e) \<and>
         (\<forall>chat. hd (trace s1) = (GetChat chat_id, Inr chat) \<longrightarrow> \<not> truthy chat \<longrightarrow>
            res = Inl (ValueError (''Chat not found: '' @ chat_id))) \<and>
         (\<forall>chat. hd (trace s1) = (GetChat chat_id, Inr chat) \<longrightarrow> truthy chat \<longrightarrow>
            owner_mismatch chat user_id = Inr True \<longrightarrow>
            res = Inl (ValueError ''User ID does not match chat owner''))"
proof -
  obtain out0 w1 where g: "perform svc (GetChat chat_id) (world (start w)) = (out0, w1)"
    by (cases "perform svc (GetChat chat_id) (world (start w))")
  note sv = steps_validation[OF g body]
  from sv have hd: "hd (trace s1) = (GetChat chat_id, out0)"
    by (auto simp: start_def)
  have a: "\<forall>e. res = Inl e \<longrightarrow>
            process_chat_prompt svc chat_id user_prompt user_id (start w) =
              (Inl e, \<lparr>world = w2, trace = trace s1 @
                 [(AddAssistantResponseToChat chat_id (PStr error_response) (PList []), out)]\<rparr>)"
    using process_from_steps[OF body apology] by auto
  have "propagates (\<lambda>k. \<not> is_chroma k \<and> \<not> is_generation k)
          (process_steps svc chat_id user_prompt user_id)"
    by (rule propagates_steps) auto
  with body have b: "\<forall>k e. (k, Inl e) \<in> set (trace s1) \<longrightarrow> \<not> is_chroma k \<longrightarrow> \<not> is_generation k \<longrightarrow>
            res = Inl e"
    unfolding propagates_def by (fastforce simp: start_def)
  from sv hd a b show ?thesis by auto
qed


theorem error_path_apologises_and_reraises_witness:
  "process_steps (init (collaborators is_append []) clock) ''c1'' ''hi'' None (start one_chat) =
     (Inl (Exception ''unavailable''),
      \<lparr>world = one_chat,
       trace = [(GetChat ''c1'', Inr (PDict [(''userId'', PStr ''u1''), (''conversation_history'', PList [])])),
                (AddPromptToChat ''c1'' ''hi'', Inl (Exception ''unavailable''))]\<rparr>) \<and>
   process_chat_prompt (init (collaborators is_append []) clock) ''c1'' ''hi'' None (start one_chat) =
     (Inl (Exception ''unavailable''),
      \<lparr>world = one_chat,
       trace = [(GetChat ''c1'', Inr (PDict [(''userId'', PStr ''u1''), (''conversation_history'', PList [])])),
                (AddPromptToChat ''c1'' ''hi'', Inl (Exception ''unavailable'')),
                (AddAssistantResponseToChat ''c1'' (PStr error_response) (PList []),
                 Inl (Exception ''unavailable''))]\<rparr>)"
proof -
  let ?D = "init (collaborators is_append []) clock"
  let ?s1 = "\<lparr>world = one_chat,
       trace = [(GetChat ''c1'', Inr (PDict [(''userId'', PStr ''u1''), (''conversation_history'', PList [])])),
                (AddPromptToChat ''c1'' ''hi'', Inl (Exception ''unavailable''))]\<rparr>"
  have body: "process_steps ?D ''c1'' ''hi'' None (start one_chat) = (Inl (Exception ''unavailable''), ?s1)"
    by (simp add: run_defs demo_defs)
  have apology: "perform ?D (AddAssistantResponseToChat ''c1'' (PStr error_response) (PList []))
                   (world ?s1) = (Inl (Exception ''unavailable''), one_chat)"
    by (simp add: demo_defs)
  have "process_chat_prompt ?D ''c1'' ''hi'' None (start one_chat) =
          (Inl (Exception ''unavailable''), \<lparr>world = one_chat, trace = trace ?s1 @
             [(AddAssistantResponseToChat ''c1'' (PStr error_response) (PList []),
               Inl (Exception ''unavailable''))]\<rparr>)"
    using error_path_apologises_and_reraises[OF body apology] by blast
  with body show ?thesis by simp
qed


text \<open>
  C10.  If validation fails (the chat returned is falsy, or the owner check finds
  a mismatch), the calls of the run are the lookup of the chat and the attempt to
  append the apology with the empty citation list, nothing else; the user's
  prompt is never appended.
\<close>

theorem validation_failure_writes_only_apology:
  assumes g: "perform svc (GetChat chat_id) w = (Inr chat, w1)"
      and invalid: "\<not> truthy chat \<or> owner_mismatch chat user_id = Inr True"
      and apology: "perform svc (AddAssistantResponseToChat chat_id (PStr error_response) (PList []))
                      w1 = (out, w2)"
  shows "process_chat_prompt svc chat_id user_prompt user_id (start w) =
           (Inl (if \<not> truthy chat then ValueError (''Chat not found: '' @ chat_id)
                 else ValueError ''User ID does not match chat owner''),
            \<lparr>world = w2,
             trace = [(GetChat chat_id, Inr chat),
                      (AddAssistantResponseToChat chat_id (PStr error_response) (PList []), out)]\<rparr>)"
proof -
  let ?sv = "\<lparr>world = w1, trace = [(GetChat chat_id, Inr chat)]\<rparr>"
  obtain res s1 where body: "process_steps svc chat_id user_prompt user_id (start w) = (res, s1)"
    by (cases "process_steps svc chat_id user_prompt user_id (start w)")
  from g have g': "perform svc (GetChat chat_id) (world (start w)) = (Inr chat, w1)"
    by (simp add: start_def)
  from steps_validation[OF g' body] invalid
  have res: "res = Inl (if \<not> truthy chat then ValueError (''Chat not found: '' @ chat_id)
                 else ValueError ''User ID does not match chat owner'')" and s1: "s1 = ?sv"
    by (auto simp: start_def)
  from apology s1 have "perform svc (AddAssistantResponseToChat chat_id (PStr error_response) (PList []))
                      (world s1) = (out, w2)"
    by simp
  from process_from_steps[OF body this] res s1 show ?thesis
    by simp
qed

theorem validation_failure_writes_only_apology_witness:
  "process_chat_prompt (init (collaborators no_call []) clock) ''c1'' ''hi'' (Some ''u2'') (start one_chat) =
     (Inl (ValueError ''User ID does not match chat owner''),
      \<lparr>world = append_message ''c1''
                 (PDict [(''role'', PStr ''assistant''), (''content'', PStr error_response),
                         (''citations'', PList [])]) one_chat,
       trace = [(GetChat ''c1'', Inr (PDict [(''userId'', PStr ''u1''), (''conversation_history'', PList [])])),
                (AddAssistantResponseToChat ''c1'' (PStr error_response) (PList []), Inr PNone)]\<rparr>)"
proof -
  let ?D = "init (collaborators no_call []) clock"
  let ?chat = "PDict [(''userId'', PStr ''u1''), (''conversation_history'', PList [])]"
  have g: "perform ?D (GetChat ''c1'') one_chat = (Inr ?chat, one_chat)"
    by (simp add: demo_defs)
  have invalid: "\<not> truthy ?chat \<or> owner_mismatch ?chat (Some ''u2'') = Inr True"
    by (simp add: owner_mismatch_def)
  have apology: "perform ?D (AddAssistantResponseToChat ''c1'' (PStr error_response) (PList [])) one_chat =
      (Inr PNone, append_message ''c1''
                 (PDict [(''role'', PStr ''assistant''), (''content'', PStr error_response),
                         (''citations'', PList [])]) one_chat)"
    by (simp add: init_def collaborators_def no_call_def)
  from validation_failure_writes_only_apology[OF g invalid apology, of "''hi''"] show ?thesis
    by simp
qed

text \<open>
  C2 as stated does not hold: \<^verbatim>\<open>user_id and ...\<close> skips the owner check for every
  falsy \<^verbatim>\<open>user_id\<close>, and the empty string is one.  With chat \<^verbatim>\<open>c1\<close> owned by \<^verbatim>\<open>u1\<close>, the
  call with \<^verbatim>\<open>user_id = ""\<close> returns a response.
\<close>

theorem empty_user_id_counterexample:
  "map_of one_chat ''c1'' = Some (PDict [(''userId'', PStr ''u1''), (''conversation_history'', PList [])]) \<and>
   fst (process_chat_prompt (init (collaborators no_call []) clock) ''c1'' ''hi'' (Some '''')
          (start one_chat)) =
     Inr (PDict [(''chatId'', PStr ''c1''), (''response'', PStr ''answer''), (''citations'', PList []),
                 (''contextUsed'', PInt 0), (''historyUsed'', PInt 1),
                 (''timestamp'', PStr ''2024-01-01T00:00:00'')])"
  by (simp add: run_defs demo_defs)

text \<open>
  C2, amended.  Let \<open>get_chat\<close> return \<open>chat\<close>.  If \<open>chat\<close> is falsy (\<^verbatim>\<open>None\<close> or empty)
  the call raises \<^verbatim>\<open>ValueError("Chat not found: ...")\<close>.  If it is truthy and a
  non-empty \<open>user_id\<close> differs from \<^verbatim>\<open>chat.get('userId')\<close>, the call raises
  \<^verbatim>\<open>ValueError("User ID does not match chat owner")\<close>.  If it is truthy and
  \<open>user_id\<close> is omitted, empty or equal to the owner, validation passes, and
  whenever the remaining steps return a response the call returns it, with
  \<^verbatim>\<open>chatId\<close> the given chat id.
\<close>

theorem validation_outcomes:
  assumes g: "perform svc (GetChat chat_id) w = (Inr chat, w1)"
  shows "(\<not> truthy chat \<longrightarrow>
            fst (process_chat_prompt svc chat_id user_prompt user_id (start w)) =
              Inl (ValueError (''Chat not found: '' @ chat_id))) \<and>
         (\<forall>uid owner. truthy chat \<longrightarrow> user_id = Some uid \<longrightarrow> uid \<noteq> [] \<longrightarrow>
            py_get chat ''userId'' PNone = Inr owner \<longrightarrow> owner \<noteq> PStr uid \<longrightarrow>
            fst (process_chat_prompt svc chat_id user_prompt user_id (start w)) =
              Inl (ValueError ''User ID does not match chat owner'')) \<and>
         (truthy chat \<longrightarrow>
          (user_id = None \<or> user_id = Some [] \<or>
           (\<exists>uid. user_id = Some uid \<and> py_get chat ''userId'' PNone = Inr (PStr uid))) \<longrightarrow>
            validate_chat_and_user svc chat_id user_id (start w) =
              (Inr chat, \<lparr>world = w1, trace = [(GetChat chat_id, Inr chat)]\<rparr>) \<and>
            (\<forall>r s. answer_prompt svc chat_id user_prompt
                      \<lparr>world = w1, trace = [(GetChat chat_id, Inr chat)]\<rparr> = (Inr r, s) \<longrightarrow>
               process_chat_prompt svc chat_id user_prompt user_id (start w) = (Inr r, s) \<and>
               py_getitem r ''chatId'' = Inr (PStr chat_id)))"
proof -
  let ?sv = "\<lparr>world = w1, trace = [(GetChat chat_id, Inr chat)]\<rparr>"
  let ?K = "AddAssistantResponseToChat chat_id (PStr error_response) (PList [])"
  from g have g': "perform svc (GetChat chat_id) (world (start w)) = (Inr chat, w1)"
    by (simp add: start_def)
  obtain res s1 where body: "process_steps svc chat_id user_prompt user_id (start w) = (res, s1)"
    by (cases "process_steps svc chat_id user_prompt user_id (start w)")
  obtain out w2 where ap: "perform svc ?K (world s1) = (out, w2)"
    by (cases "perform svc ?K (world s1)")
  note sv = steps_validation[OF g' body]
  note pr = process_from_steps[OF body ap]
  have a: "\<not> truthy chat \<longrightarrow>
            fst (process_chat_prompt svc chat_id user_prompt user_id (start w)) =
              Inl (ValueError (''Chat not found: '' @ chat_id))"
    using sv pr by auto
  have b: "\<forall>uid owner. truthy chat \<longrightarrow> user_id = Some uid \<longrightarrow> uid \<noteq> [] \<longrightarrow>
            py_get chat ''userId'' PNone = Inr owner \<longrightarrow> owner \<noteq> PStr uid \<longrightarrow>
            fst (process_chat_prompt svc chat_id user_prompt user_id (start w)) =
              Inl (ValueError ''User ID does not match chat owner'')"
  proof (intro allI impI)
    fix uid owner
    assume "truthy chat" "user_id = Some uid" "uid \<noteq> []"
      "py_get chat ''userId'' PNone = Inr owner" "owner \<noteq> PStr uid"
    then have "truthy chat \<and> owner_mismatch chat user_id = Inr True"
      by (simp add: owner_mismatch_def)
    with sv pr show "fst (process_chat_prompt svc chat_id user_prompt user_id (start w)) =
              Inl (ValueError ''User ID does not match chat owner'')"
      by auto
  qed
  have c: "truthy chat \<longrightarrow>
          (user_id = None \<or> user_id = Some [] \<or>
           (\<exists>uid. user_id = Some uid \<and> py_get chat ''userId'' PNone = Inr (PStr uid))) \<longrightarrow>
            validate_chat_and_user svc chat_id user_id (start w) = (Inr chat, ?sv) \<and>
            (\<forall>r s. answer_prompt svc chat_id user_prompt ?sv = (Inr r, s) \<longrightarrow>
               process_chat_prompt svc chat_id user_prompt user_id (start w) = (Inr r, s) \<and>
               py_getitem r ''chatId'' = Inr (PStr chat_id))"
  proof (intro impI)
    assume t: "truthy chat"
      and u: "user_id = None \<or> user_id = Some [] \<or>
           (\<exists>uid. user_id = Some uid \<and> py_get chat ''userId'' PNone = Inr (PStr uid))"
    then have om: "owner_mismatch chat user_id = Inr False"
      by (auto simp: owner_mismatch_def)
    with t validate_cases[OF g', of user_id]
    have v: "validate_chat_and_user svc chat_id user_id (start w) = (Inr chat, ?sv)"
      by (simp add: start_def)
    have "\<forall>r s. answer_prompt svc chat_id user_prompt ?sv = (Inr r, s) \<longrightarrow>
               process_chat_prompt svc chat_id user_prompt user_id (start w) = (Inr r, s) \<and>
               py_getitem r ''chatId'' = Inr (PStr chat_id)"
    proof (intro allI impI)
      fix r s
      assume an: "answer_prompt svc chat_id user_prompt ?sv = (Inr r, s)"
      with v have "process_chat_prompt svc chat_id user_prompt user_id (start w) = (Inr r, s)"
        by (simp add: process_chat_prompt_def process_steps_def bind_x_def try_except_def)
      moreover from process_returns[OF this] have "py_getitem r ''chatId'' = Inr (PStr chat_id)"
        by auto
      ultimately show "process_chat_prompt svc chat_id user_prompt user_id (start w) = (Inr r, s) \<and>
               py_getitem r ''chatId'' = Inr (PStr chat_id)"
        by simp
    qed
    with v show "validate_chat_and_user svc chat_id user_id (start w) = (Inr chat, ?sv) \<and>
            (\<forall>r s. answer_prompt svc chat_id user_prompt ?sv = (Inr r, s) \<longrightarrow>
               process_chat_prompt svc chat_id user_prompt user_id (start w) = (Inr r, s) \<and>
               py_getitem r ''chatId'' = Inr (PStr chat_id))"
      by simp
  qed
  from a b c show ?thesis by blast
qed

theorem validation_outcomes_witness:
  "fst (process_chat_prompt (init (collaborators no_call []) clock) ''c2'' ''hi'' None (start one_chat)) =
     Inl (ValueError ''Chat not found: c2'') \<and>
   fst (process_chat_prompt (init (collaborators no_call []) clock) ''c1'' ''hi'' (Some ''u2'')
          (start one_chat)) = Inl (ValueError ''User ID does not match chat owner'') \<and>
   (\<exists>r s. process_chat_prompt (init (collaborators no_call []) clock) ''c1'' ''hi'' (Some ''u1'')
            (start one_chat) = (Inr r, s) \<and> py_getitem r ''chatId'' = Inr (PStr ''c1''))"
proof -
  let ?D = "init (collaborators no_call []) clock"
  let ?chat = "PDict [(''userId'', PStr ''u1''), (''conversation_history'', PList [])]"
  have g2: "perform ?D (GetChat ''c2'') one_chat = (Inr PNone, one_chat)"
    by (simp add: demo_defs)
  have g1: "perform ?D (GetChat ''c1'') one_chat = (Inr ?chat, one_chat)"
    by (simp add: demo_defs)
  have a: "fst (process_chat_prompt ?D ''c2'' ''hi'' None (start one_chat)) =
     Inl (ValueError ''Chat not found: c2'')"
    using validation_outcomes[OF g2, of "''hi''" None] by simp
  have b: "fst (process_chat_prompt ?D ''c1'' ''hi'' (Some ''u2'') (start one_chat)) =
     Inl (ValueError ''User ID does not match chat owner'')"
    using validation_outcomes[OF g1, of "''hi''" "Some ''u2''"] by simp
  have "\<exists>r s. answer_prompt ?D ''c1'' ''hi'' \<lparr>world = one_chat, trace = [(GetChat ''c1'', Inr ?chat)]\<rparr> = (Inr r, s)"
    by (simp add: run_defs demo_defs)
  then obtain r s where an: "answer_prompt ?D ''c1'' ''hi''
       \<lparr>world = one_chat, trace = [(GetChat ''c1'', Inr ?chat)]\<rparr> = (Inr r, s)"
    by blast
  have c: "\<exists>r s. process_chat_prompt ?D ''c1'' ''hi'' (Some ''u1'') (start one_chat) = (Inr r, s) \<and>
      py_getitem r ''chatId'' = Inr (PStr ''c1'')"
    using validation_outcomes[OF g1, of "''hi''" "Some ''u1''"] an by auto
  from a b c show ?thesis by blast
qed

text \<open>
  C4.  Suppose validation succeeded, the prompt was appended, and the retrieval
  call then raises.  \<open>_retrieve_relevant_context\<close> returns the empty dict instead of
  raising, and the run goes on as for an empty retrieval result: whenever
  formatting and the steps after it return a response, \<open>process_chat_prompt\<close>
  returns that response.  Its \<^verbatim>\<open>contextUsed\<close> is 0, provided the formatter (which is
  not among the sources) gives a context of length 0 for the empty result and
  truncation keeps such a context at length 0.
\<close>

theorem retrieval_failure_degrades:
  assumes valid: "validate_chat_and_user svc chat_id user_id s0 = (Inr chat, s1)"
      and added: "invoke svc (AddPromptToChat chat_id user_prompt) s1 = (Inr x, s2)"
      and down: "perform svc (QueryChatDocs chat_id user_prompt) (world s2) = (Inl e, w3)"
      and fmt: "keeps_empty_context svc"
  shows "retrieve_relevant_context svc chat_id user_prompt s2 =
           (Inr (PDict []),
            \<lparr>world = w3, trace = trace s2 @ [(QueryChatDocs chat_id user_prompt, Inl e)]\<rparr>) \<and>
         (\<forall>r s. bind_x (invoke svc (FormatRagContext (PDict [])))
                   (respond_with_context svc chat_id user_prompt)
                   \<lparr>world = w3, trace = trace s2 @ [(QueryChatDocs chat_id user_prompt, Inl e)]\<rparr>
                 = (Inr r, s) \<longrightarrow>
            process_chat_prompt svc chat_id user_prompt user_id s0 = (Inr r, s) \<and>
            py_getitem r ''contextUsed'' = Inr (PInt 0))"
proof -
  let ?s3 = "\<lparr>world = w3, trace = trace s2 @ [(QueryChatDocs chat_id user_prompt, Inl e)]\<rparr>"
  let ?rest = "bind_x (invoke svc (FormatRagContext (PDict [])))
                   (respond_with_context svc chat_id user_prompt)"
  from retrieve_cases[of svc chat_id user_prompt s2] down
  have ret: "retrieve_relevant_context svc chat_id user_prompt s2 = (Inr (PDict []), ?s3)"
    by auto
  have "\<forall>r s. ?rest ?s3 = (Inr r, s) \<longrightarrow>
            process_chat_prompt svc chat_id user_prompt user_id s0 = (Inr r, s) \<and>
            py_getitem r ''contextUsed'' = Inr (PInt 0)"
  proof (intro allI impI)
    fix r s
    assume rest: "?rest ?s3 = (Inr r, s)"
    with valid added ret
    have run: "process_chat_prompt svc chat_id user_prompt user_id s0 = (Inr r, s)"
      by (simp add: process_chat_prompt_def process_steps_def answer_prompt_def bind_x_def
          try_except_def)
    from rest obtain fctx s4 where f: "invoke svc (FormatRagContext (PDict [])) ?s3 = (Inr fctx, s4)"
      and resp: "respond_with_context svc chat_id user_prompt fctx s4 = (Inr r, s)"
      by (auto simp: bind_x_def split: prod.splits sum.splits)
    from f fmt have len0: "py_len fctx = Inr 0"
      by (auto simp: invoke_eq keeps_empty_context_def)
    from respond_returns[OF resp]
    obtain fhist s6 opt s7 octx ohist nctx nhist resp' cits
      where tr: "invoke svc (TruncateContextIfNeeded fctx fhist (max_tokens svc)) s6 = (Inr opt, s7)"
        and un: "py_unpack2 opt = Inr (octx, ohist)"
        and ln: "py_len octx = Inr nctx"
        and r: "r = PDict [(''chatId'', PStr chat_id), (''response'', resp'), (''citations'', cits),
                (''contextUsed'', PInt (int nctx)), (''historyUsed'', PInt (int nhist)),
                (''timestamp'', PStr (utcnow_isoformat svc (world s)))]"
      by (elim exE conjE) (rule that)
    from tr obtain w7 where "perform svc (TruncateContextIfNeeded fctx fhist (max_tokens svc)) (world s6) = (Inr opt, w7)"
      by (auto simp: invoke_eq)
    with fmt len0 un have "py_len octx = Inr 0"
      unfolding keeps_empty_context_def by blast
    with ln have "nctx = 0" by simp
    with r run show "process_chat_prompt svc chat_id user_prompt user_id s0 = (Inr r, s) \<and>
            py_getitem r ''contextUsed'' = Inr (PInt 0)"
      by simp
  qed
  with ret show ?thesis by blast
qed


text \<open>The vector store is down; the store, the formatter and the language model work.\<close>

theorem retrieval_failure_degrades_witness:
  "\<exists>r s. process_chat_prompt (init (collaborators is_chroma [doc ''a'' 5]) clock)
            ''c1'' ''hi'' None (start one_chat) = (Inr r, s) \<and>
         py_getitem r ''contextUsed'' = Inr (PInt 0)"
proof -
  let ?D = "init (collaborators is_chroma [doc ''a'' 5]) clock"
  let ?chat = "PDict [(''userId'', PStr ''u1''), (''conversation_history'', PList [])]"
  let ?s1 = "\<lparr>world = one_chat, trace = [(GetChat ''c1'', Inr ?chat)]\<rparr>"
  let ?w2 = "append_message ''c1'' (PDict [(''role'', PStr ''user''), (''content'', PStr ''hi'')]) one_chat"
  let ?s2 = "\<lparr>world = ?w2, trace = [(GetChat ''c1'', Inr ?chat), (AddPromptToChat ''c1'' ''hi'', Inr PNone)]\<rparr>"
  have valid: "validate_chat_and_user ?D ''c1'' None (start one_chat) = (Inr ?chat, ?s1)"
    by (simp add: run_defs demo_defs)
  have added: "invoke ?D (AddPromptToChat ''c1'' ''hi'') ?s1 = (Inr PNone, ?s2)"
    by (simp add: invoke_def init_def collaborators_def)
  have down: "perform ?D (QueryChatDocs ''c1'' ''hi'') (world ?s2) = (Inl (Exception ''unavailable''), ?w2)"
    by (simp add: init_def collaborators_def)
  have "\<exists>r s. bind_x (invoke ?D (FormatRagContext (PDict [])))
                   (respond_with_context ?D ''c1'' ''hi'')
                   \<lparr>world = ?w2, trace = trace ?s2 @ [(QueryChatDocs ''c1'' ''hi'', Inl (Exception ''unavailable''))]\<rparr>
                 = (Inr r, s)"
    by (simp add: run_defs demo_defs)
  then obtain r s where rest: "bind_x (invoke ?D (FormatRagContext (PDict [])))
                   (respond_with_context ?D ''c1'' ''hi'')
                   \<lparr>world = ?w2, trace = trace ?s2 @ [(QueryChatDocs ''c1'' ''hi'', Inl (Exception ''unavailable''))]\<rparr>
                 = (Inr r, s)"
    by blast
  from retrieval_failure_degrades[OF valid added down demo_keeps_empty] rest
  show ?thesis by blast
qed




text \<open>
  C6.  The formatter is not among the sources; its truncation is taken from the
  specification (\<open>truncate_context_if_needed\<close>, with any block estimate \<open>est\<close>).  For
  the service as \<^verbatim>\<open>__init__\<close> configures it, in every run of \<open>process_chat_prompt\<close>,
  each call of \<open>prepare_llm_payload\<close> receives the user's prompt unchanged and a
  context and history whose token estimates together do not exceed 8000.
\<close>

theorem payload_within_budget:
  assumes spec: "truncates_as_specified est (init collab clk)"
      and run: "process_chat_prompt (init collab clk) chat_id user_prompt user_id (start w) = (res, s)"
      and call: "(PrepareLLMPayload context history q, out) \<in> set (trace s)"
  shows "q = user_prompt \<and>
         (\<exists>c h. context = PList c \<and> history = PList h \<and> tokens est c + tokens est h \<le> 8000)"
proof -
  from all_calls_process_payload[OF spec, of user_prompt chat_id user_id] run
  obtain tr where "trace s = trace (start w) @ tr"
    and "\<forall>x\<in>set tr. payload_ok (init collab clk) est user_prompt x"
    unfolding all_calls_def by blast
  with call have "payload_ok (init collab clk) est user_prompt (PrepareLLMPayload context history q, out)"
    by (auto simp: start_def)
  then show ?thesis
    by (simp add: payload_ok_def init_def)
qed

theorem payload_within_budget_witness:
  "\<exists>res s payload.
      process_chat_prompt (init (collaborators no_call [doc ''a'' 5000, doc ''b'' 4000]) clock)
        ''c1'' ''hi'' None (start one_chat) = (res, s) \<and>
      (PrepareLLMPayload (PList [doc ''a'' 5000])
         (PList [PDict [(''role'', PStr ''user''), (''content'', PStr ''hi'')]]) ''hi'', Inr payload)
        \<in> set (trace s) \<and>
      (\<exists>c h. PList [doc ''a'' 5000] = PList c \<and>
             PList [PDict [(''role'', PStr ''user''), (''content'', PStr ''hi'')]] = PList h \<and>
             tokens block_tokens c + tokens block_tokens h \<le> 8000)"
proof -
  let ?coll = "collaborators no_call [doc ''a'' 5000, doc ''b'' 4000]"
  let ?ctx = "PList [doc ''a'' 5000]"
  let ?hist = "PList [PDict [(''role'', PStr ''user''), (''content'', PStr ''hi'')]]"
  have spec: "truncates_as_specified block_tokens (init ?coll clock)"
    by (simp add: truncates_as_specified_def init_def collaborators_def no_call_def)
  have "\<exists>res s payload. process_chat_prompt (init ?coll clock) ''c1'' ''hi'' None (start one_chat) = (res, s) \<and>
      (PrepareLLMPayload ?ctx ?hist ''hi'', Inr payload) \<in> set (trace s)"
    by (simp add: run_defs demo_defs)
  then obtain res s payload
    where run: "process_chat_prompt (init ?coll clock) ''c1'' ''hi'' None (start one_chat) = (res, s)"
      and call: "(PrepareLLMPayload ?ctx ?hist ''hi'', Inr payload) \<in> set (trace s)"
    by blast
  from payload_within_budget[OF spec run call] run call show ?thesis
    by blast
qed

text \<open>
  C8.  For a payload that carries a prompt, \<open>_generate_llm_response\<close> makes exactly
  one call to the language model: \<open>generate_with_context\<close>, with the prompt, the
  context and the history, when the payload's context or its history is truthy
  (for a list, string, tuple or dict: non-empty), and \<open>generate\<close> with the prompt
  alone otherwise.  It returns what that call returns, or the fallback string when
  the call raises.
\<close>

theorem generation_mode:
  assumes p: "py_getitem payload ''prompt'' = Inr prompt"
      and c: "py_get payload ''context'' PNone = Inr context"
      and h: "py_get payload ''history'' PNone = Inr history"
      and c': "py_get payload ''context'' (PList []) = Inr context_arg"
      and h': "py_get payload ''history'' (PList []) = Inr history_arg"
      and o: "perform svc
                (if truthy context \<or> truthy history
                 then GenerateWithContext prompt context_arg history_arg else Generate prompt)
                (world s) = (out, w')"
  shows "generate_llm_response svc payload s =
           (Inr (case out of Inl e \<Rightarrow> PStr fallback_response | Inr v \<Rightarrow> v),
            \<lparr>world = w',
             trace = trace s @
               [(if truthy context \<or> truthy history
                 then GenerateWithContext prompt context_arg history_arg else Generate prompt,
                 out)]\<rparr>) \<and>
         truthy context =
           (context \<notin> {PNone, PBool False, PInt 0, PStr [], PList [], PTuple [], PDict []}) \<and>
         truthy history =
           (history \<notin> {PNone, PBool False, PInt 0, PStr [], PList [], PTuple [], PDict []})"
proof -
  have t: "\<And>v. truthy v = (v \<notin> {PNone, PBool False, PInt 0, PStr [], PList [], PTuple [], PDict []})"
  proof -
    fix v show "truthy v = (v \<notin> {PNone, PBool False, PInt 0, PStr [], PList [], PTuple [], PDict []})"
      by (cases v) auto
  qed
  have "generate_llm_response svc payload s =
           (Inr (case out of Inl e \<Rightarrow> PStr fallback_response | Inr v \<Rightarrow> v),
            \<lparr>world = w',
             trace = trace s @
               [(if truthy context \<or> truthy history
                 then GenerateWithContext prompt context_arg history_arg else Generate prompt,
                 out)]\<rparr>)"
    using p c h c' h' o
    by (auto simp: generate_llm_response_def llm_generation_def try_except_def bind_x_def
        invoke_def lift_x_def return_x_def split: sum.splits)
  with t[of "context"] t[of "history"] show ?thesis by blast
qed

theorem generation_mode_witness:
  "generate_llm_response (init (collaborators no_call []) clock)
     (PDict [(''context'', PList [doc ''a'' 5]), (''history'', PList []), (''prompt'', PStr ''hi'')])
     (start one_chat) =
     (Inr (PStr ''answer''),
      \<lparr>world = one_chat,
       trace = [(GenerateWithContext (PStr ''hi'') (PList [doc ''a'' 5]) (PList []), Inr (PStr ''answer''))]\<rparr>) \<and>
   generate_llm_response (init (collaborators no_call []) clock)
     (PDict [(''context'', PList []), (''history'', PList []), (''prompt'', PStr ''hi'')])
     (start one_chat) =
     (Inr (PStr ''answer''),
      \<lparr>world = one_chat, trace = [(Generate (PStr ''hi''), Inr (PStr ''answer''))]\<rparr>)"
proof -
  let ?D = "init (collaborators no_call []) clock"
  let ?p1 = "PDict [(''context'', PList [doc ''a'' 5]), (''history'', PList []), (''prompt'', PStr ''hi'')]"
  let ?p2 = "PDict [(''context'', PList []), (''history'', PList []), (''prompt'', PStr ''hi'')]"
  have o1: "perform ?D
              (if truthy (PList [doc ''a'' 5]) \<or> truthy (PList [])
               then GenerateWithContext (PStr ''hi'') (PList [doc ''a'' 5]) (PList [])
               else Generate (PStr ''hi''))
              (world (start one_chat)) = (Inr (PStr ''answer''), one_chat)"
    by (simp add: init_def collaborators_def no_call_def start_def)
  have o2: "perform ?D
              (if truthy (PList []) \<or> truthy (PList [])
               then GenerateWithContext (PStr ''hi'') (PList []) (PList [])
               else Generate (PStr ''hi''))
              (world (start one_chat)) = (Inr (PStr ''answer''), one_chat)"
    by (simp add: init_def collaborators_def no_call_def start_def)
  have a: "generate_llm_response ?D ?p1 (start one_chat) =
     (Inr (PStr ''answer''),
      \<lparr>world = one_chat,
       trace = [(GenerateWithContext (PStr ''hi'') (PList [doc ''a'' 5]) (PList []), Inr (PStr ''answer''))]\<rparr>)"
    using generation_mode[of ?p1 "PStr ''hi''" "PList [doc ''a'' 5]" "PList []"
        "PList [doc ''a'' 5]" "PList []", OF _ _ _ _ _ o1]
    by (simp add: start_def)
  have b: "generate_llm_response ?D ?p2 (start one_chat) =
     (Inr (PStr ''answer''),
      \<lparr>world = one_chat, trace = [(Generate (PStr ''hi''), Inr (PStr ''answer''))]\<rparr>)"
    using generation_mode[of ?p2 "PStr ''hi''" "PList []" "PList []" "PList []" "PList []",
        OF _ _ _ _ _ o2]
    by (simp add: start_def)
  from a b show ?thesis by blast
qed


text \<open>
  C9 as stated does not hold: the language model is not probed with a call, and
  an exception from it cannot turn its entry false.  With every call to the
  language model raising, \<open>health_check\<close> makes the two calls to the vector store
  and the chat store only, and reports the language model healthy.
\<close>

theorem llm_not_probed_counterexample:
  "fst (perform (init (collaborators is_generation []) clock) (Generate (PStr ''ping'')) one_chat) =
     Inl (Exception ''unavailable'') \<and>
   health_check (init (collaborators is_generation []) clock) (start one_chat) =
     (Inr (PDict
        [(''chatbot_service'', PBool True), (''chroma_db'', PBool True), (''mongodb'', PBool True),
         (''perplexity_llm'', PBool True), (''timestamp'', PStr ''2024-01-01T00:00:00'')]),
      \<lparr>world = one_chat,
       trace = [(GetCollection, Inr (PStr ''collection'')),
                (GetChat ''health_check_test'', Inr PNone)]\<rparr>)"
  by (simp add: health_check_def bind_x_def try_except_def invoke_def return_x_def demo_defs
      start_def)

text \<open>
  C9, amended.  \<open>health_check\<close> never raises.  It probes the vector store
  (\<open>get_collection\<close>) and then the chat store (\<open>get_chat\<close>), whatever the first probe
  did, and makes no other call; \<^verbatim>\<open>chroma_db\<close> is true exactly when the first returned
  a value other than \<^verbatim>\<open>None\<close>, \<^verbatim>\<open>mongodb\<close> exactly when the second returned.  The
  language model is not called: \<^verbatim>\<open>perplexity_llm\<close> is true exactly when \<^verbatim>\<open>self.llm\<close> is
  not \<^verbatim>\<open>None\<close>.  \<^verbatim>\<open>chatbot_service\<close> is true.  With only the vector store down the
  result is chroma false, mongodb true, perplexity true.
\<close>

theorem health_check_probes:
  "(\<exists>r1 w1 r2 w2.
      perform svc GetCollection (world s) = (r1, w1) \<and>
      perform svc (GetChat ''health_check_test'') w1 = (r2, w2) \<and>
      health_check svc s =
        (Inr (PDict
           [(''chatbot_service'', PBool True),
            (''chroma_db'', PBool (case r1 of Inl e \<Rightarrow> False | Inr collection \<Rightarrow> collection \<noteq> PNone)),
            (''mongodb'', PBool (case r2 of Inl e \<Rightarrow> False | Inr test_chat \<Rightarrow> True)),
            (''perplexity_llm'', PBool (llm svc \<noteq> PNone)),
            (''timestamp'', PStr (utcnow_isoformat svc (world s)))]),
         \<lparr>world = w2,
          trace = trace s @ [(GetCollection, r1), (GetChat ''health_check_test'', r2)]\<rparr>)) \<and>
   fst (health_check (init (collaborators is_chroma []) clock) (start one_chat)) =
     Inr (PDict
       [(''chatbot_service'', PBool True), (''chroma_db'', PBool False), (''mongodb'', PBool True),
        (''perplexity_llm'', PBool True), (''timestamp'', PStr ''2024-01-01T00:00:00'')])"
proof -
  have a: "\<exists>r1 w1 r2 w2.
      perform svc GetCollection (world s) = (r1, w1) \<and>
      perform svc (GetChat ''health_check_test'') w1 = (r2, w2) \<and>
      health_check svc s =
        (Inr (PDict
           [(''chatbot_service'', PBool True),
            (''chroma_db'', PBool (case r1 of Inl e \<Rightarrow> False | Inr collection \<Rightarrow> collection \<noteq> PNone)),
            (''mongodb'', PBool (case r2 of Inl e \<Rightarrow> False | Inr test_chat \<Rightarrow> True)),
            (''perplexity_llm'', PBool (llm svc \<noteq> PNone)),
            (''timestamp'', PStr (utcnow_isoformat svc (world s)))]),
         \<lparr>world = w2,
          trace = trace s @ [(GetCollection, r1), (GetChat ''health_check_test'', r2)]\<rparr>)"
    by (auto simp: health_check_def bind_x_def try_except_def invoke_def return_x_def
        split: prod.splits sum.splits)
  have b: "fst (health_check (init (collaborators is_chroma []) clock) (start one_chat)) =
     Inr (PDict
       [(''chatbot_service'', PBool True), (''chroma_db'', PBool False), (''mongodb'', PBool True),
        (''perplexity_llm'', PBool True), (''timestamp'', PStr ''2024-01-01T00:00:00'')])"
    by (simp add: health_check_def bind_x_def try_except_def invoke_def return_x_def demo_defs
        start_def)
  from a b show ?thesis by blast
qed

text \<open>
  C7.  The configured \<open>max_rag_results\<close> has no effect on \<open>process_chat_prompt\<close>:
  \<open>query_chat_docs\<close> is called with the chat id and the prompt only.  With a
  retriever that returns six documents, all six are formatted, sent to the
  language model and counted in \<^verbatim>\<open>contextUsed\<close>.  The history passed to
  \<open>format_chat_history\<close> is that of the session as re-loaded after the prompt was
  appended, with the limit 10.
\<close>

theorem rag_limit_not_applied:
  "process_chat_prompt (svc\<lparr>max_rag_results := k\<rparr>) chat_id user_prompt user_id s =
     process_chat_prompt svc chat_id user_prompt user_id s \<and>
   map fst (trace (snd (process_chat_prompt (init (collaborators no_call six_docs) clock)
                          ''c1'' ''hi'' None (start one_chat)))) =
     [GetChat ''c1'', AddPromptToChat ''c1'' ''hi'', QueryChatDocs ''c1'' ''hi'',
      FormatRagContext (PDict [(''documents'', PList [PList six_docs])]),
      GetChat ''c1'',
      FormatChatHistory (PList [PDict [(''role'', PStr ''user''), (''content'', PStr ''hi'')]]) 10,
      TruncateContextIfNeeded (PList six_docs)
        (PList [PDict [(''role'', PStr ''user''), (''content'', PStr ''hi'')]]) 8000,
      PrepareLLMPayload (PList six_docs)
        (PList [PDict [(''role'', PStr ''user''), (''content'', PStr ''hi'')]]) ''hi'',
      GenerateWithContext (PStr ''hi'') (PList six_docs)
        (PList [PDict [(''role'', PStr ''user''), (''content'', PStr ''hi'')]]),
      ExtractCitationsFromContext (PList six_docs) (PStr ''answer''),
      AddAssistantResponseToChat ''c1'' (PStr ''answer'') (PList [])] \<and>
   fst (process_chat_prompt (init (collaborators no_call six_docs) clock)
          ''c1'' ''hi'' None (start one_chat)) =
     Inr (PDict [(''chatId'', PStr ''c1''), (''response'', PStr ''answer''), (''citations'', PList []),
                 (''contextUsed'', PInt 6), (''historyUsed'', PInt 1),
                 (''timestamp'', PStr ''2024-01-01T00:00:00'')])"
proof -
  have a: "process_chat_prompt (svc\<lparr>max_rag_results := k\<rparr>) chat_id user_prompt user_id s =
     process_chat_prompt svc chat_id user_prompt user_id s"
    by (simp add: process_chat_prompt_def process_steps_def validate_chat_and_user_def
        answer_prompt_def retrieve_relevant_context_def invoke_limit respond_limit
        report_error_limit)
  have b: "map fst (trace (snd (process_chat_prompt (init (collaborators no_call six_docs) clock)
                          ''c1'' ''hi'' None (start one_chat)))) =
     [GetChat ''c1'', AddPromptToChat ''c1'' ''hi'', QueryChatDocs ''c1'' ''hi'',
      FormatRagContext (PDict [(''documents'', PList [PList six_docs])]),
      GetChat ''c1'',
      FormatChatHistory (PList [PDict [(''role'', PStr ''user''), (''content'', PStr ''hi'')]]) 10,
      TruncateContextIfNeeded (PList six_docs)
        (PList [PDict [(''role'', PStr ''user''), (''content'', PStr ''hi'')]]) 8000,
      PrepareLLMPayload (PList six_docs)
        (PList [PDict [(''role'', PStr ''user''), (''content'', PStr ''hi'')]]) ''hi'',
      GenerateWithContext (PStr ''hi'') (PList six_docs)
        (PList [PDict [(''role'', PStr ''user''), (''content'', PStr ''hi'')]]),
      ExtractCitationsFromContext (PList six_docs) (PStr ''answer''),
      AddAssistantResponseToChat ''c1'' (PStr ''answer'') (PList [])]"
    by (simp add: run_defs demo_defs six_docs_def)
  have c: "fst (process_chat_prompt (init (collaborators no_call six_docs) clock)
          ''c1'' ''hi'' None (start one_chat)) =
     Inr (PDict [(''chatId'', PStr ''c1''), (''response'', PStr ''answer''), (''citations'', PList []),
                 (''contextUsed'', PInt 6), (''historyUsed'', PInt 1),
                 (''timestamp'', PStr ''2024-01-01T00:00:00'')])"
    by (simp add: run_defs demo_defs six_docs_def)
  from a b c show ?thesis by blast
qed

end
